theory Spec2Isabelle
  imports Complex_Main "HOL-Library.Word"
begin

section \<open>JavaScript values used by the page controllers\<close>

text \<open>
  A JavaScript string is a sequence of UTF-16 code units. String literals of the sources
  are written with \<open>js\<close> for their ASCII stretches and with explicit code units for
  the Vietnamese letters and symbols, exactly as they stand in the source files.
\<close>

type_synonym jsstring = "16 word list"

definition js :: "string \<Rightarrow> jsstring" where
  "js s = map (\<lambda>c. of_nat (of_char c)) s"

text \<open>
  \<open>String.prototype.trim\<close> strips the code units that ECMAScript calls WhiteSpace or
  LineTerminator from both ends.
\<close>

definition isWhiteSpace :: "16 word \<Rightarrow> bool" where
  "isWhiteSpace c \<longleftrightarrow>
     c \<in> set [0x0009, 0x000A, 0x000B, 0x000C, 0x000D, 0x0020, 0x00A0, 0x1680,
                0x2000, 0x2001, 0x2002, 0x2003, 0x2004, 0x2005, 0x2006, 0x2007,
                0x2008, 0x2009, 0x200A, 0x2028, 0x2029, 0x202F, 0x205F, 0x3000, 0xFEFF]"

definition trim :: "jsstring \<Rightarrow> jsstring" where
  "trim s = rev (dropWhile isWhiteSpace (rev (dropWhile isWhiteSpace s)))"

text \<open>A string is truthy when it is not empty; \<open>null\<close> and \<open>undefined\<close> are \<open>None\<close>.\<close>

definition truthy :: "jsstring \<Rightarrow> bool" where
  "truthy s \<longleftrightarrow> s \<noteq> []"

definition falsy :: "jsstring option \<Rightarrow> bool" where
  "falsy v = (case v of None \<Rightarrow> True | Some s \<Rightarrow> \<not> truthy s)"

text \<open>What a template literal or string concatenation makes of a value.\<close>

definition interpolate :: "jsstring option \<Rightarrow> jsstring" where
  "interpolate v = (case v of None \<Rightarrow> js ''undefined'' | Some s \<Rightarrow> s)"

fun decimal :: "nat \<Rightarrow> jsstring" where
  "decimal n =
     (if n < 10 then [of_nat (48 + n)]
      else decimal (n div 10) @ [of_nat (48 + n mod 10)])"

declare decimal.simps [simp del]

fun joinWith :: "jsstring \<Rightarrow> jsstring list \<Rightarrow> jsstring" where
  "joinWith sep [] = []"
| "joinWith sep [x] = x"
| "joinWith sep (x # y # ys) = x @ sep @ joinWith sep (y # ys)"

text \<open>Every exception the handlers catch is read through its \<open>message\<close> only.\<close>

datatype js_error = JsError (message: jsstring)

text \<open>An awaited promise is fulfilled, rejected, or never settled.\<close>

datatype 'a settled = Fulfilled 'a | RejectedWith js_error | NeverSettles

section \<open>Message elements: showError, hideError, showSuccess, hideSuccess, showSpinner\<close>

text \<open>
  The helpers look an element up by id and do nothing when it is missing. A document maps
  the ids of the message and spinner elements to their text and their \<open>hidden\<close> class.
  The planning page's \<open>showSuccess\<close> also starts a four-second timer that hides the
  element again; timers are left out.
\<close>

record element =
  textContent :: jsstring
  hidden :: bool

type_synonym document = "string \<rightharpoonup> element"

definition showError :: "string \<Rightarrow> jsstring \<Rightarrow> document \<Rightarrow> document" where
  "showError elementId msg doc =
     (case doc elementId of
        None \<Rightarrow> doc
      | Some el \<Rightarrow> doc(elementId \<mapsto> el\<lparr>textContent := msg, hidden := False\<rparr>))"

definition hideError :: "string \<Rightarrow> document \<Rightarrow> document" where
  "hideError elementId doc =
     (case doc elementId of
        None \<Rightarrow> doc
      | Some el \<Rightarrow> doc(elementId \<mapsto> el\<lparr>hidden := True\<rparr>))"

definition showSuccess :: "string \<Rightarrow> jsstring \<Rightarrow> document \<Rightarrow> document" where
  "showSuccess elementId msg doc =
     (case doc elementId of
        None \<Rightarrow> doc
      | Some el \<Rightarrow> doc(elementId \<mapsto> el\<lparr>textContent := msg, hidden := False\<rparr>))"

definition hideSuccess :: "string \<Rightarrow> document \<Rightarrow> document" where
  "hideSuccess elementId doc =
     (case doc elementId of
        None \<Rightarrow> doc
      | Some el \<Rightarrow> doc(elementId \<mapsto> el\<lparr>hidden := True\<rparr>))"

definition showSpinner :: "string \<Rightarrow> bool \<Rightarrow> document \<Rightarrow> document" where
  "showSpinner spinnerId shown doc =
     (case doc spinnerId of
        None \<Rightarrow> doc
      | Some spinner \<Rightarrow> doc(spinnerId \<mapsto> spinner\<lparr>hidden := \<not> shown\<rparr>))"

text \<open>An element shows a message when it exists, carries the text and is not hidden.\<close>

definition displays :: "document \<Rightarrow> string \<Rightarrow> jsstring \<Rightarrow> bool" where
  "displays doc elementId msg =
     (case doc elementId of
        None \<Rightarrow> False
      | Some el \<Rightarrow> textContent el = msg \<and> \<not> hidden el)"

section \<open>Image optimisation: optimizeImageForUpload\<close>

text \<open>
  The size computation of \<open>optimizeImageForUpload\<close> (the copy in planning-script.js and
  the copy in utils.js compute the same). JavaScript numbers are IEEE doubles; the model
  computes in exact rationals and \<open>Math.round\<close> is \<open>\<lfloor>x + 1/2\<rfloor>\<close>. Division by a
  zero side gives \<open>Infinity\<close> in JavaScript, so \<open>Math.min\<close> then returns the other
  quotient.
\<close>

definition MAX_DIMENSION :: nat where
  "MAX_DIMENSION = 1024"

definition mathRound :: "rat \<Rightarrow> int" where
  "mathRound x = \<lfloor>x + 1 / 2\<rfloor>"

definition resizeRatio :: "nat \<Rightarrow> nat \<Rightarrow> rat" where
  "resizeRatio width height =
     (if width = 0 then of_nat MAX_DIMENSION / of_nat height
      else if height = 0 then of_nat MAX_DIMENSION / of_nat width
      else min (of_nat MAX_DIMENSION / of_nat width) (of_nat MAX_DIMENSION / of_nat height))"

definition resizedDimensions :: "nat \<Rightarrow> nat \<Rightarrow> nat \<times> nat" where
  "resizedDimensions width height =
     (if width > MAX_DIMENSION \<or> height > MAX_DIMENSION then
        let ratio = resizeRatio width height
        in (nat (mathRound (of_nat width * ratio)), nat (mathRound (of_nat height * ratio)))
      else (width, height))"

text \<open>
  A file is known by what the browser's decoder makes of it: \<open>img.onload\<close> with the
  natural size, or \<open>img.onerror\<close>. \<open>canvas.toBlob\<close> hands its callback a PNG of the canvas,
  or \<open>null\<close> when the canvas has no pixels.
\<close>

datatype image_load = Loaded nat nat | LoadFailed

datatype image_file = ImageFile (decode: image_load)

datatype blob = CanvasPng nat nat | OriginalFile image_file

definition canvas_toBlob :: "nat \<Rightarrow> nat \<Rightarrow> blob option" where
  "canvas_toBlob width height =
     (if width = 0 \<or> height = 0 then None else Some (CanvasPng width height))"

text \<open>
  The copy in planning-script.js sets no \<open>img.onerror\<close>: when the file does not decode,
  its promise is never settled. The copy in utils.js resolves with the file itself.
\<close>

definition optimizeImageForUpload :: "image_file \<Rightarrow> blob option settled" where
  "optimizeImageForUpload f =
     (case decode f of
        LoadFailed \<Rightarrow> NeverSettles
      | Loaded width height \<Rightarrow>
          (case resizedDimensions width height of
             (w, h) \<Rightarrow> Fulfilled (canvas_toBlob w h)))"

definition optimizeImageForUpload_utils :: "image_file \<Rightarrow> blob option settled" where
  "optimizeImageForUpload_utils f =
     (case decode f of
        LoadFailed \<Rightarrow> Fulfilled (Some (OriginalFile f))
      | Loaded width height \<Rightarrow>
          (case resizedDimensions width height of
             (w, h) \<Rightarrow> Fulfilled (canvas_toBlob w h)))"

section \<open>HTTP responses\<close>

text \<open>
  What \<open>await fetch(...)\<close> followed by \<open>await response.json()\<close> can give a handler:
  the fetch rejects (no network), or a response arrives whose body either fails to parse
  (\<open>json()\<close> rejects) or parses to an object. Of the object the handlers read the
  entries \<open>error\<close>, \<open>generated_image_base64\<close> and \<open>mime_type\<close>, each a string
  when present. \<open>response.ok\<close> holds for the statuses 200 to 299.
\<close>

record json_object =
  error_entry :: "jsstring option"
  generated_image_base64 :: "jsstring option"
  mime_type :: "jsstring option"

datatype response_body = NotJson js_error | Json json_object

record response =
  status :: nat
  statusText :: jsstring
  body :: response_body

datatype fetch_result = NetworkFailure js_error | Response response

definition ok :: "response \<Rightarrow> bool" where
  "ok r \<longleftrightarrow> 200 \<le> status r \<and> status r \<le> 299"

record image_element =
  src :: jsstring
  alt :: jsstring

section \<open>Planning page (planning-script.js)\<close>

subsection \<open>Lot cards\<close>

text \<open>
  A lot card holds a number input and a description textarea; the readers guard against
  either being absent. The container itself may be missing from the page.
\<close>

record lot_card =
  numberInput :: "jsstring option"
  descriptionInput :: "jsstring option"

record lot =
  lot_number :: jsstring
  description :: jsstring

fun collectCards :: "lot_card list \<Rightarrow> lot list" where
  "collectCards [] = []"
| "collectCards (lotCard # cards) =
     (let lotNumber = (case numberInput lotCard of Some v \<Rightarrow> trim v | None \<Rightarrow> []);
          description = (case descriptionInput lotCard of Some v \<Rightarrow> trim v | None \<Rightarrow> [])
      in if truthy lotNumber \<and> truthy description
         then \<lparr>lot_number = lotNumber, description = description\<rparr> # collectCards cards
         else collectCards cards)"

definition collectLotDescriptions :: "lot_card list option \<Rightarrow> lot list" where
  "collectLotDescriptions container =
     (case container of None \<Rightarrow> [] | Some cards \<Rightarrow> collectCards cards)"

subsection \<open>Page state\<close>

text \<open>
  The module variables, the controls the handlers touch, and the network. The generate
  button, the option selects and (on the detail page) the gallery are dereferenced by the
  handlers without a null check and are taken to be present; elements that every use guards
  are optional. \<open>generateBtn.innerHTML\<close> is only ever assigned the spinner markup or the
  label markup, so the model records which. \<open>planningPosts\<close> lists the bodies of the POSTs
  to \<open>/planning/render\<close> issued so far and \<open>planningPending\<close> counts those whose fetch
  has not settled yet. The preview widgets of the uploaders and the disabled state of the
  add-lot button are presentation only and are left out.
\<close>

datatype button_markup = InitialMarkup | SpinnerMarkup | GenerateLabelMarkup

record planning_request =
  site_plan_base64 :: "jsstring option"
  lot_map_base64 :: "jsstring option"
  lot_descriptions :: "lot list"
  camera_angle :: jsstring
  time_of_day :: jsstring
  aspect_ratio :: jsstring
  style_keywords :: jsstring

record download_button =
  downloadHidden :: bool
  downloadPayload :: "jsstring option option"

record planning_page =
  currentSitePlanImage :: "jsstring option"
  currentLotMapImage :: "jsstring option"
  isPlanningRendering :: bool
  lotCardsContainer :: "lot_card list option"
  generateBtnDisabled :: bool
  generateBtnMarkup :: button_markup
  planningDocument :: document
  planningGallery :: "image_element list option"
  downloadPlanningBtn :: "download_button option"
  planningOutputControlsHidden :: "bool option"
  planningCameraAngle :: jsstring
  planningTimeOfDay :: jsstring
  planningAspectRatio :: jsstring
  planningStyleKeywords :: jsstring
  planningPosts :: "planning_request list"
  planningPending :: nat

subsection \<open>Messages of the planning page\<close>

definition msg_upload_plans :: jsstring where
  "msg_upload_plans =
     js ''Vui l'' @ [0x00F2] @ js ''ng upload Site Plan v'' @ [0x00E0] @ js '' Lot Map!''"

definition msg_add_lot :: jsstring where
  "msg_add_lot =
     js ''Vui l'' @ [0x00F2] @ js ''ng th'' @ [0x00EA] @ js ''m '' @ [0x00ED] @ js ''t nh''
     @ [0x1EA5] @ js ''t m'' @ [0x1ED9] @ js ''t m'' @ [0x00F4] @ js '' t'' @ [0x1EA3]
     @ js '' l'' @ [0x00F4] @ js ''!''"

definition planning_error_prefix :: jsstring where
  "planning_error_prefix = js ''L'' @ [0x1ED7] @ js ''i render: ''"

definition msg_planning_failed :: jsstring where
  "msg_planning_failed = js ''Planning render failed''"

definition msg_planning_done :: jsstring where
  "msg_planning_done =
     [0xD83C, 0xDF89] @ js '' Planning render ho'' @ [0x00E0] @ js ''n t'' @ [0x1EA5] @ js ''t!''"



subsection \<open>updateGenerateButton and the lot-card handlers\<close>

definition updateGenerateButton :: "planning_page \<Rightarrow> planning_page" where
  "updateGenerateButton s =
     (let hasSitePlan = (currentSitePlanImage s \<noteq> None);
          hasLotMap = (currentLotMapImage s \<noteq> None);
          hasLots = (case lotCardsContainer s of None \<Rightarrow> False | Some cards \<Rightarrow> length cards > 0);
          hasDescriptions =
            (case lotCardsContainer s of
               None \<Rightarrow> False
             | Some cards \<Rightarrow>
                 list_ex (\<lambda>lotCard. case descriptionInput lotCard of
                                     None \<Rightarrow> False
                                   | Some v \<Rightarrow> trim v \<noteq> []) cards)
      in s\<lparr>generateBtnDisabled := \<not> (hasSitePlan \<and> hasLotMap \<and> hasLots \<and> hasDescriptions)\<rparr>)"

text \<open>
  \<open>addLotDescription\<close> appends a card numbered by the count of the container's children
  plus one, with an empty description. \<open>updateLotNumbers\<close> refills blank number inputs
  with the card's position.
\<close>

definition addLotDescription :: "planning_page \<Rightarrow> planning_page" where
  "addLotDescription s =
     (case lotCardsContainer s of
        None \<Rightarrow> s
      | Some cards \<Rightarrow>
          updateGenerateButton
            (s\<lparr>lotCardsContainer :=
                 Some (cards @ [\<lparr>numberInput = Some (decimal (length cards + 1)),
                                  descriptionInput = Some []\<rparr>])\<rparr>))"

fun renumberCards :: "nat \<Rightarrow> lot_card list \<Rightarrow> lot_card list" where
  "renumberCards index [] = []"
| "renumberCards index (lotCard # cards) =
     (case numberInput lotCard of
        Some v \<Rightarrow>
          (if trim v = [] then lotCard\<lparr>numberInput := Some (decimal (index + 1))\<rparr> else lotCard)
      | None \<Rightarrow> lotCard) # renumberCards (index + 1) cards"

definition updateLotNumbers :: "planning_page \<Rightarrow> planning_page" where
  "updateLotNumbers s =
     (case lotCardsContainer s of
        None \<Rightarrow> s
      | Some cards \<Rightarrow> s\<lparr>lotCardsContainer := Some (renumberCards 0 cards)\<rparr>)"

text \<open>The click handler of the \<open>i\<close>-th card's remove button.\<close>

definition removeLot :: "nat \<Rightarrow> planning_page \<Rightarrow> planning_page" where
  "removeLot i s =
     (case lotCardsContainer s of
        None \<Rightarrow> s
      | Some cards \<Rightarrow>
          if i < length cards
          then updateGenerateButton
                 (updateLotNumbers (s\<lparr>lotCardsContainer := Some (take i cards @ drop (Suc i) cards)\<rparr>))
          else s)"

text \<open>
  Typing into the \<open>i\<close>-th description fires its \<open>input\<close> listener, which is
  \<open>updateGenerateButton\<close>; the number input has no listener.
\<close>

definition inputDescription :: "nat \<Rightarrow> jsstring \<Rightarrow> planning_page \<Rightarrow> planning_page" where
  "inputDescription i v s =
     (case lotCardsContainer s of
        None \<Rightarrow> s
      | Some cards \<Rightarrow>
          if i < length cards \<and> descriptionInput (cards ! i) \<noteq> None
          then updateGenerateButton
                 (s\<lparr>lotCardsContainer := Some (cards[i := (cards ! i)\<lparr>descriptionInput := Some v\<rparr>])\<rparr>)
          else s)"

definition inputNumber :: "nat \<Rightarrow> jsstring \<Rightarrow> planning_page \<Rightarrow> planning_page" where
  "inputNumber i v s =
     (case lotCardsContainer s of
        None \<Rightarrow> s
      | Some cards \<Rightarrow>
          if i < length cards \<and> numberInput (cards ! i) \<noteq> None
          then s\<lparr>lotCardsContainer := Some (cards[i := (cards ! i)\<lparr>numberInput := Some v\<rparr>])\<rparr>
          else s)"

subsection \<open>Uploads: handleSitePlanUpload, handleLotMapUpload\<close>

text \<open>
  The handler awaits the optimiser, then starts a FileReader on its result.
  \<open>readAsDataURL\<close> throws a TypeError when handed \<open>null\<close>; otherwise the reader's
  \<open>onload\<close> fires with the data URL, or never (no \<open>onerror\<close> is set). Both are given by
  the environment: \<open>reader\<close> maps a blob to the data URL its \<open>onload\<close> delivers, if any.
  A handler whose await never resumes leaves the page as it is.
\<close>

definition sitePlanLoaded :: "jsstring \<Rightarrow> planning_page \<Rightarrow> planning_page" where
  "sitePlanLoaded url s = updateGenerateButton (s\<lparr>currentSitePlanImage := Some url\<rparr>)"

definition lotMapLoaded :: "jsstring \<Rightarrow> planning_page \<Rightarrow> planning_page" where
  "lotMapLoaded url s = updateGenerateButton (s\<lparr>currentLotMapImage := Some url\<rparr>)"



subsection \<open>generatePlanningRender\<close>

text \<open>
  An async handler runs without interruption up to its first pending \<open>await\<close>.
  \<open>generatePlanningRender\<close> is the part of the handler up to \<open>await fetch(...)\<close> (or up
  to an early \<open>return\<close>); \<open>generatePlanningRender_resume\<close> is the rest, run when the
  fetch has settled and the body has been read.
\<close>

definition generatePlanningRender :: "planning_page \<Rightarrow> planning_page" where
  "generatePlanningRender s =
     (if falsy (currentSitePlanImage s) \<or> falsy (currentLotMapImage s) then
        s\<lparr>planningDocument := showError ''planningError'' msg_upload_plans (planningDocument s)\<rparr>
      else
        let lots = collectLotDescriptions (lotCardsContainer s) in
        if length lots = 0 then
          s\<lparr>planningDocument := showError ''planningError'' msg_add_lot (planningDocument s)\<rparr>
        else if isPlanningRendering s then s
        else
          s\<lparr>isPlanningRendering := True,
            generateBtnDisabled := True,
            generateBtnMarkup := SpinnerMarkup,
            planningDocument :=
              hideSuccess ''planningSuccess'' (hideError ''planningError'' (planningDocument s)),
            planningPosts := planningPosts s @
              [\<lparr>site_plan_base64 = currentSitePlanImage s,
                lot_map_base64 = currentLotMapImage s,
                lot_descriptions = lots,
                camera_angle = planningCameraAngle s,
                time_of_day = planningTimeOfDay s,
                aspect_ratio = planningAspectRatio s,
                style_keywords = planningStyleKeywords s\<rparr>],
            planningPending := Suc (planningPending s)\<rparr>)"

text \<open>
  The value of the \<open>try\<close> block's network part: the parsed body of an ok response, or the
  exception thrown (by the fetch, by \<open>json()\<close>, or by the handler for a response that is
  not ok).
\<close>

definition planningResponseData :: "fetch_result \<Rightarrow> js_error + json_object" where
  "planningResponseData res =
     (case res of
        NetworkFailure e \<Rightarrow> Inl e
      | Response r \<Rightarrow>
          (case body r of
             NotJson e \<Rightarrow> Inl e
           | Json errorData \<Rightarrow>
               if \<not> ok r then
                 Inl (JsError (case error_entry errorData of
                                 Some m \<Rightarrow> if truthy m then m else msg_planning_failed
                               | None \<Rightarrow> msg_planning_failed))
               else Inr errorData))"

definition displayPlanningRender ::
  "jsstring option \<Rightarrow> jsstring option \<Rightarrow> planning_page \<Rightarrow> planning_page" where
  "displayPlanningRender base64Data mimeType s =
     (case planningGallery s of
        None \<Rightarrow> s
      | Some previous \<Rightarrow>
          s\<lparr>planningGallery :=
              Some [\<lparr>src = js ''data:'' @ interpolate mimeType @ js '';base64,''
                          @ interpolate base64Data,
                     alt = js ''Planning render result''\<rparr>],
            downloadPlanningBtn :=
              map_option (\<lambda>b. b\<lparr>downloadHidden := False, downloadPayload := Some base64Data\<rparr>)
                (downloadPlanningBtn s),
            planningOutputControlsHidden :=
              map_option (\<lambda>h. False) (planningOutputControlsHidden s)\<rparr>)"

definition generatePlanningRender_catch :: "js_error \<Rightarrow> planning_page \<Rightarrow> planning_page" where
  "generatePlanningRender_catch e s =
     s\<lparr>planningDocument :=
         showError ''planningError'' (planning_error_prefix @ message e) (planningDocument s)\<rparr>"

definition generatePlanningRender_finally :: "planning_page \<Rightarrow> planning_page" where
  "generatePlanningRender_finally s =
     s\<lparr>generateBtnDisabled := False,
       generateBtnMarkup := GenerateLabelMarkup,
       isPlanningRendering := False\<rparr>"

definition generatePlanningRender_resume :: "fetch_result \<Rightarrow> planning_page \<Rightarrow> planning_page" where
  "generatePlanningRender_resume res s =
     generatePlanningRender_finally
       (case planningResponseData res of
          Inl e \<Rightarrow> generatePlanningRender_catch e s
        | Inr result \<Rightarrow>
            (let s' = displayPlanningRender (generated_image_base64 result) (mime_type result) s
             in s'\<lparr>planningDocument :=
                     showSuccess ''planningSuccess'' msg_planning_done (planningDocument s')\<rparr>))"

subsection \<open>The planning page as a transition system\<close>

text \<open>
  One event is one task of the browser's event loop: an upload's reader delivering its data
  URL, a click or an edit by the user, or the settling of a pending fetch (possible only
  while one is pending).
\<close>

datatype planning_event =
    SitePlanLoaded jsstring
  | LotMapLoaded jsstring
  | ClickAddLot
  | ClickRemoveLot nat
  | InputDescription nat jsstring
  | InputNumber nat jsstring
  | ClickGeneratePlanning
  | PlanningFetchSettled fetch_result

fun planning_step :: "planning_page \<Rightarrow> planning_event \<Rightarrow> planning_page" where
  "planning_step s (SitePlanLoaded url) = sitePlanLoaded url s"
| "planning_step s (LotMapLoaded url) = lotMapLoaded url s"
| "planning_step s ClickAddLot = addLotDescription s"
| "planning_step s (ClickRemoveLot i) = removeLot i s"
| "planning_step s (InputDescription i v) = inputDescription i v s"
| "planning_step s (InputNumber i v) = inputNumber i v s"
| "planning_step s ClickGeneratePlanning = generatePlanningRender s"
| "planning_step s (PlanningFetchSettled res) =
     (if planningPending s = 0 then s
      else generatePlanningRender_resume res (s\<lparr>planningPending := planningPending s - 1\<rparr>))"

definition planning_run :: "planning_page \<Rightarrow> planning_event list \<Rightarrow> planning_page" where
  "planning_run s events = foldl planning_step s events"

text \<open>
  Modelled from the spec: the markup of the planning page, which is not among the sources.
  A page with all its elements before any interaction: nothing uploaded, no lot card,
  messages hidden, the generate button disabled. The option values are placeholders.
\<close>

definition planning_initial :: planning_page where
  "planning_initial =
     \<lparr>currentSitePlanImage = None,
      currentLotMapImage = None,
      isPlanningRendering = False,
      lotCardsContainer = Some [],
      generateBtnDisabled = True,
      generateBtnMarkup = InitialMarkup,
      planningDocument =
        [''planningError'' \<mapsto> \<lparr>textContent = [], hidden = True\<rparr>,
         ''planningSuccess'' \<mapsto> \<lparr>textContent = [], hidden = True\<rparr>],
      planningGallery = Some [],
      downloadPlanningBtn = Some \<lparr>downloadHidden = True, downloadPayload = None\<rparr>,
      planningOutputControlsHidden = Some True,
      planningCameraAngle = js ''aerial'',
      planningTimeOfDay = js ''day'',
      planningAspectRatio = js ''16:9'',
      planningStyleKeywords = [],
      planningPosts = [],
      planningPending = 0\<rparr>"

section \<open>Detail page (planning-detail-script.js)\<close>

subsection \<open>The form\<close>

text \<open>
  The controls are named by their element ids. Of a \<open>select\<close> the handlers read
  \<open>value\<close> and \<open>options[selectedIndex].text\<close>; with no option selected (index -1, as
  after assigning a value that no option carries) the latter reads a property of
  \<open>undefined\<close> and throws a TypeError. The camera, time-of-day, weather, quality and
  aspect-ratio controls are copied into the request unchanged, take part in no decision
  and are left out.
\<close>

record select_control =
  selectValue :: jsstring
  selectedText :: "jsstring option"

record detail_form =
  custom_description :: jsstring
  scale :: jsstring
  project_type :: select_control
  overall_description :: jsstring
  highrise_count :: jsstring
  highrise_floors :: jsstring
  highrise_style :: select_control
  highrise_colors :: jsstring
  highrise_features :: jsstring
  has_lowrise :: bool
  lowrise_floors :: jsstring
  lowrise_style :: select_control
  lowrise_colors :: jsstring
  green_spaces :: jsstring
  tree_type :: select_control
  road_pattern :: select_control
  context_people :: bool
  context_vehicles :: bool
  context_skyline :: bool
  context_water :: bool

definition typeError_text :: js_error where
  "typeError_text =
     JsError (js ''Cannot read properties of undefined (reading '' @ [0x0027] @ js ''text''
              @ [0x0027] @ js '')'')"

definition selectedOptionText :: "select_control \<Rightarrow> js_error + jsstring" where
  "selectedOptionText sel =
     (case selectedText sel of None \<Rightarrow> Inl typeError_text | Some t \<Rightarrow> Inr t)"

subsection \<open>buildDescriptionFromFields\<close>

definition highrisePart :: "detail_form \<Rightarrow> jsstring \<Rightarrow> jsstring list" where
  "highrisePart f hrStyle =
     (let hrCount = trim (highrise_count f);
          hrFloors = trim (highrise_floors f);
          hrColors = trim (highrise_colors f);
          hrFeatures = trim (highrise_features f)
      in if truthy hrCount \<or> truthy hrFloors then
           [js ''Ph'' @ [0x00E2] @ js ''n khu cao t'' @ [0x1EA7] @ js ''ng:''
            @ (if truthy hrCount then js '' '' @ hrCount @ js '' t'' @ [0x00F2] @ js ''a'' else [])
            @ (if truthy hrFloors
               then js '', m'' @ [0x1ED7] @ js ''i t'' @ [0x00F2] @ js ''a '' @ hrFloors
                    @ js '' t'' @ [0x1EA7] @ js ''ng''
               else [])
            @ js ''. '' @ hrStyle
            @ (if truthy hrColors
               then js '', m'' @ [0x00E0] @ js ''u s'' @ [0x1EAF] @ js ''c: '' @ hrColors
               else [])
            @ (if truthy hrFeatures
               then js ''. '' @ [0x0110, 0x1EB7] @ js ''c '' @ [0x0111] @ js ''i'' @ [0x1EC3]
                    @ js ''m: '' @ hrFeatures
               else [])]
         else [])"

definition lowrisePart :: "detail_form \<Rightarrow> jsstring \<Rightarrow> jsstring list" where
  "lowrisePart f lrStyle =
     (let lrFloors = trim (lowrise_floors f);
          lrColors = trim (lowrise_colors f)
      in [js ''Ph'' @ [0x00E2] @ js ''n khu th'' @ [0x1EA5] @ js ''p t'' @ [0x1EA7] @ js ''ng:''
          @ (if truthy lrFloors then js '' '' @ lrFloors @ js '' t'' @ [0x1EA7] @ js ''ng'' else [])
          @ js ''. '' @ lrStyle
          @ (if truthy lrColors then js '', '' @ lrColors else [])])"

definition landscapePart :: "detail_form \<Rightarrow> jsstring \<Rightarrow> jsstring \<Rightarrow> jsstring list" where
  "landscapePart f treeType roadPattern =
     (let greenSpaces = trim (green_spaces f)
      in [js ''C'' @ [0x1EA3] @ js ''nh quan:''
          @ (if truthy greenSpaces then js '' '' @ greenSpaces @ js ''.'' else [])
          @ js '' C'' @ [0x00E2] @ js ''y xanh: '' @ treeType @ js ''. Giao th'' @ [0x00F4]
          @ js ''ng: '' @ roadPattern])"

definition contextPart :: "detail_form \<Rightarrow> jsstring list" where
  "contextPart f =
     (let contextParts =
            (if context_people f
             then [js ''ng'' @ [0x01B0, 0x1EDD] @ js ''i '' @ [0x0111] @ js ''i b'' @ [0x1ED9]
                   @ js '' (motion blur)'']
             else [])
            @ (if context_vehicles f then [js ''xe h'' @ [0x01A1] @ js ''i (motion blur)''] else [])
            @ (if context_skyline f then [js ''city skyline ph'' @ [0x00ED] @ js ''a xa''] else [])
            @ (if context_water f then [js ''water features''] else [])
      in if length contextParts > 0
         then [js ''Context: '' @ joinWith (js '', '') contextParts]
         else [])"

text \<open>
  The builder reads the selected option texts in the order of the source, so the first
  select without a selection raises; the low-rise style is read only when the low-rise box
  is checked.
\<close>

definition buildDescriptionFromFields :: "detail_form \<Rightarrow> js_error + jsstring" where
  "buildDescriptionFromFields f =
     (case selectedOptionText (project_type f) of
        Inl e \<Rightarrow> Inl e
      | Inr projectType \<Rightarrow>
     (case selectedOptionText (highrise_style f) of
        Inl e \<Rightarrow> Inl e
      | Inr hrStyle \<Rightarrow>
     (case (if has_lowrise f then selectedOptionText (lowrise_style f) else Inr []) of
        Inl e \<Rightarrow> Inl e
      | Inr lrStyle \<Rightarrow>
     (case selectedOptionText (tree_type f) of
        Inl e \<Rightarrow> Inl e
      | Inr treeType \<Rightarrow>
     (case selectedOptionText (road_pattern f) of
        Inl e \<Rightarrow> Inl e
      | Inr roadPattern \<Rightarrow>
          (let overall = trim (overall_description f);
               parts =
                 [js ''Quy ho'' @ [0x1EA1] @ js ''ch '' @ scale f @ js '' '' @ projectType]
                 @ (if truthy overall then [overall] else [])
                 @ highrisePart f hrStyle
                 @ (if has_lowrise f then lowrisePart f lrStyle else [])
                 @ landscapePart f treeType roadPattern
                 @ contextPart f
           in Inr (joinWith (js ''. '') parts @ js ''.'')))))))"

subsection \<open>collectFormData\<close>

text \<open>
  Besides \<open>planning_description\<close> the returned object copies control values (among them
  \<open>structured_data\<close>, the raw values of the structured fields); the model keeps the
  form for them.
\<close>

record form_data =
  planning_description :: jsstring
  structured_data :: detail_form

definition collectFormData :: "detail_form \<Rightarrow> js_error + form_data" where
  "collectFormData f =
     (let customDescription = trim (custom_description f)
      in if truthy customDescription then
           Inr \<lparr>planning_description = customDescription, structured_data = f\<rparr>
         else
           (case buildDescriptionFromFields f of
              Inl e \<Rightarrow> Inl e
            | Inr built \<Rightarrow> Inr \<lparr>planning_description = built, structured_data = f\<rparr>))"

subsection \<open>Page state\<close>

text \<open>
  \<open>posts\<close> lists the bodies of the POSTs to \<open>/planning/detail-render\<close> issued so far,
  \<open>pending\<close> counts those whose fetch has not settled yet.
\<close>

record detail_request =
  image_base64 :: "jsstring option"
  planning_data :: form_data

record detail_page =
  currentSketchImage :: "jsstring option"
  currentRenderedImage :: "jsstring option"
  isRendering :: bool
  generateButtonDisabled :: bool
  detailDocument :: document
  gallery :: "image_element list"
  outputControlsHidden :: bool
  statTime :: jsstring
  statsBoxHidden :: bool
  formControls :: detail_form
  posts :: "detail_request list"
  pending :: nat

subsection \<open>Messages of the detail page\<close>

definition msg_upload_sketch :: jsstring where
  "msg_upload_sketch =
     js ''Vui l'' @ [0x00F2] @ js ''ng upload sketch tr'' @ [0x01B0, 0x1EDB] @ js ''c!''"

definition msg_fill_form :: jsstring where
  "msg_fill_form =
     js ''Vui l'' @ [0x00F2] @ js ''ng '' @ [0x0111] @ js ''i'' @ [0x1EC1] @ js ''n th''
     @ [0x00F4] @ js ''ng tin (nh'' @ [0x1EA5] @ js ''n Analyze ho'' @ [0x1EB7] @ js ''c ''
     @ [0x0111] @ js ''i'' @ [0x1EC1] @ js ''n th'' @ [0x1EE7] @ js '' c'' @ [0x00F4]
     @ js ''ng)!''"

definition render_error_prefix :: jsstring where
  "render_error_prefix = js ''L'' @ [0x1ED7] @ js ''i khi render: ''"

definition server_error_prefix :: jsstring where
  "server_error_prefix = js ''Server error: ''"

definition msg_render_done :: "jsstring \<Rightarrow> jsstring" where
  "msg_render_done elapsedTime =
     [0x2705] @ js '' Render th'' @ [0x00E0] @ js ''nh c'' @ [0x00F4] @ js ''ng trong ''
     @ elapsedTime @ js ''s!''"

subsection \<open>handleImageUpload\<close>

text \<open>
  The detail page reads the chosen file as it is, without decoding or resizing it. The
  reader's \<open>onload\<close> stores the data URL and enables the generate button; when the
  read fails nothing happens (no \<open>onerror\<close> is set). The handler's \<open>catch\<close>
  block guards the creation and the start of the FileReader, which do not throw for a
  file chosen in a file input.
\<close>

definition sketchLoaded :: "jsstring \<Rightarrow> detail_page \<Rightarrow> detail_page" where
  "sketchLoaded base64 s = s\<lparr>currentSketchImage := Some base64, generateButtonDisabled := False\<rparr>"

definition handleImageUpload ::
  "(image_file \<Rightarrow> jsstring option) \<Rightarrow> image_file option \<Rightarrow> detail_page \<Rightarrow> detail_page" where
  "handleImageUpload reader chosen s =
     (case chosen of
        None \<Rightarrow> s
      | Some f \<Rightarrow> (case reader f of None \<Rightarrow> s | Some base64 \<Rightarrow> sketchLoaded base64 s))"

subsection \<open>generateRender\<close>

definition generateRender_catch :: "js_error \<Rightarrow> detail_page \<Rightarrow> detail_page" where
  "generateRender_catch e s =
     s\<lparr>detailDocument :=
         showError ''renderError'' (render_error_prefix @ message e) (detailDocument s)\<rparr>"

definition generateRender_finally :: "detail_page \<Rightarrow> detail_page" where
  "generateRender_finally s =
     s\<lparr>isRendering := False,
       detailDocument := showSpinner ''renderSpinner'' False (detailDocument s),
       generateButtonDisabled := False\<rparr>"

text \<open>
  The handler up to \<open>await fetch(...)\<close>. When \<open>collectFormData\<close> throws inside the
  \<open>try\<close>, the \<open>catch\<close> and \<open>finally\<close> blocks run at once and nothing is posted.
\<close>

definition generateRender :: "detail_page \<Rightarrow> detail_page" where
  "generateRender s =
     (if falsy (currentSketchImage s) then
        s\<lparr>detailDocument := showError ''renderError'' msg_upload_sketch (detailDocument s)\<rparr>
      else if isRendering s then s
      else
        let customDesc = trim (custom_description (formControls s));
            overallDesc = trim (overall_description (formControls s));
            hasHighrise = (truthy (trim (highrise_count (formControls s)))
                           \<or> truthy (trim (highrise_floors (formControls s))))
        in if \<not> truthy customDesc \<and> \<not> truthy overallDesc \<and> \<not> hasHighrise then
             s\<lparr>detailDocument := showError ''renderError'' msg_fill_form (detailDocument s)\<rparr>
           else
             let s1 = s\<lparr>isRendering := True,
                        detailDocument :=
                          hideSuccess ''renderSuccess''
                            (hideError ''renderError''
                               (showSpinner ''renderSpinner'' True (detailDocument s))),
                        generateButtonDisabled := True\<rparr>
             in (case collectFormData (formControls s) of
                   Inl e \<Rightarrow> generateRender_finally (generateRender_catch e s1)
                 | Inr formData \<Rightarrow>
                     s1\<lparr>posts := posts s1 @
                          [\<lparr>image_base64 = currentSketchImage s, planning_data = formData\<rparr>],
                        pending := Suc (pending s1)\<rparr>))"

definition detailResponseData :: "fetch_result \<Rightarrow> js_error + json_object" where
  "detailResponseData res =
     (case res of
        NetworkFailure e \<Rightarrow> Inl e
      | Response r \<Rightarrow>
          (case body r of
             NotJson e \<Rightarrow> Inl e
           | Json errorData \<Rightarrow>
               if \<not> ok r then
                 Inl (JsError (case error_entry errorData of
                                 Some m \<Rightarrow> if truthy m then m
                                           else server_error_prefix @ decimal (status r)
                               | None \<Rightarrow> server_error_prefix @ decimal (status r)))
               else Inr errorData))"

definition displayRenderedImage :: "jsstring option \<Rightarrow> detail_page \<Rightarrow> detail_page" where
  "displayRenderedImage base64Image s =
     s\<lparr>gallery := [\<lparr>src = interpolate base64Image, alt = js ''Rendered planning''\<rparr>],
       outputControlsHidden := False\<rparr>"

text \<open>
  The rest of the handler. \<open>elapsedTime\<close> is the text of the measured duration
  (\<open>toFixed(1)\<close> of the clock difference), given by the environment.
\<close>

definition generateRender_resume :: "fetch_result \<Rightarrow> jsstring \<Rightarrow> detail_page \<Rightarrow> detail_page" where
  "generateRender_resume res elapsedTime s =
     generateRender_finally
       (case detailResponseData res of
          Inl e \<Rightarrow> generateRender_catch e s
        | Inr data \<Rightarrow>
            (let s' = displayRenderedImage (generated_image_base64 data)
                        (s\<lparr>currentRenderedImage := generated_image_base64 data\<rparr>)
             in s'\<lparr>detailDocument :=
                     showSuccess ''renderSuccess'' (msg_render_done elapsedTime) (detailDocument s'),
                   statTime := elapsedTime @ js ''s'',
                   statsBoxHidden := False\<rparr>))"

subsection \<open>The detail page as a transition system\<close>

text \<open>
  The generate button and the regenerate button both call \<open>generateRender\<close>. Edits of
  the form, by the user or by \<open>fillFormFromAnalysis\<close>, replace the control values.
\<close>

datatype detail_event =
    SketchLoaded jsstring
  | FormInput detail_form
  | ClickGenerate
  | FetchSettled fetch_result jsstring

fun detail_step :: "detail_page \<Rightarrow> detail_event \<Rightarrow> detail_page" where
  "detail_step s (SketchLoaded base64) = sketchLoaded base64 s"
| "detail_step s (FormInput f) = s\<lparr>formControls := f\<rparr>"
| "detail_step s ClickGenerate = generateRender s"
| "detail_step s (FetchSettled res elapsedTime) =
     (if pending s = 0 then s
      else generateRender_resume res elapsedTime (s\<lparr>pending := pending s - 1\<rparr>))"

definition detail_run :: "detail_page \<Rightarrow> detail_event list \<Rightarrow> detail_page" where
  "detail_run s events = foldl detail_step s events"

text \<open>
  Modelled from the spec: the markup of the detail page, which is not among the sources.
  A form with every field blank and every select on an option, and a page with all its
  elements before any interaction: no sketch, messages and spinner hidden, the generate
  button disabled. The option texts are placeholders.
\<close>

definition blank_form :: detail_form where
  "blank_form =
     \<lparr>custom_description = [],
      scale = js ''1/500'',
      project_type = \<lparr>selectValue = js ''mixed_use'', selectedText = Some (js ''Mixed use'')\<rparr>,
      overall_description = [],
      highrise_count = [],
      highrise_floors = [],
      highrise_style = \<lparr>selectValue = js ''modern'', selectedText = Some (js ''Modern'')\<rparr>,
      highrise_colors = [],
      highrise_features = [],
      has_lowrise = False,
      lowrise_floors = [],
      lowrise_style = \<lparr>selectValue = js ''villa'', selectedText = Some (js ''Villa'')\<rparr>,
      lowrise_colors = [],
      green_spaces = [],
      tree_type = \<lparr>selectValue = js ''tropical'', selectedText = Some (js ''Tropical'')\<rparr>,
      road_pattern = \<lparr>selectValue = js ''grid'', selectedText = Some (js ''Grid'')\<rparr>,
      context_people = False,
      context_vehicles = False,
      context_skyline = False,
      context_water = False\<rparr>"

definition detail_initial :: detail_page where
  "detail_initial =
     \<lparr>currentSketchImage = None,
      currentRenderedImage = None,
      isRendering = False,
      generateButtonDisabled = True,
      detailDocument =
        [''renderError'' \<mapsto> \<lparr>textContent = [], hidden = True\<rparr>,
         ''renderSuccess'' \<mapsto> \<lparr>textContent = [], hidden = True\<rparr>,
         ''renderSpinner'' \<mapsto> \<lparr>textContent = [], hidden = True\<rparr>],
      gallery = [],
      outputControlsHidden = True,
      statTime = [],
      statsBoxHidden = True,
      formControls = blank_form,
      posts = [],
      pending = 0\<rparr>"

section \<open>Predicates used in the statements\<close>

text \<open>
  A request whose lot list is not empty and whose lots all have a number and a description
  that are not blank; a card that lacks a number or a description.
\<close>

definition nonblank_lots :: "planning_request \<Rightarrow> bool" where
  "nonblank_lots req \<longleftrightarrow>
     lot_descriptions req \<noteq> []
     \<and> (\<forall>l \<in> set (lot_descriptions req).
           trim (lot_number l) \<noteq> [] \<and> trim (description l) \<noteq> [])"

definition blankCard :: "lot_card \<Rightarrow> bool" where
  "blankCard c \<longleftrightarrow>
     (case numberInput c of None \<Rightarrow> True | Some v \<Rightarrow> trim v = [])
     \<or> (case descriptionInput c of None \<Rightarrow> True | Some v \<Rightarrow> trim v = [])"

text \<open>
  The in-flight discipline: at most one fetch is pending, and while one is pending the
  page's flag is set.
\<close>

definition detail_inv :: "detail_page \<Rightarrow> bool" where
  "detail_inv s \<longleftrightarrow> pending s \<le> 1 \<and> (pending s = 1 \<longrightarrow> isRendering s)"

definition planning_inv :: "planning_page \<Rightarrow> bool" where
  "planning_inv s \<longleftrightarrow>
     planningPending s \<le> 1 \<and> (planningPending s = 1 \<longrightarrow> isPlanningRendering s)"

text \<open>
  Sample states: a detail page with a sketch and a custom description, before and after a
  click on the generate button; a planning page with both plans and one described lot,
  before and after the click.
\<close>

definition detail_ready :: detail_page where
  "detail_ready =
     detail_run detail_initial
       [SketchLoaded (js ''data:sketch''),
        FormInput (blank_form\<lparr>custom_description := js ''Riverside towers''\<rparr>)]"

definition detail_busy :: detail_page where
  "detail_busy = detail_step detail_ready ClickGenerate"

definition planning_ready :: planning_page where
  "planning_ready =
     planning_run planning_initial
       [SitePlanLoaded (js ''data:a''), LotMapLoaded (js ''data:b''), ClickAddLot,
        InputDescription 0 (js ''Villa'')]"

definition planning_busy :: planning_page where
  "planning_busy = planning_step planning_ready ClickGeneratePlanning"

text \<open>
  The state a page is left in when a render action has ended with an error message: the
  flag is clear, the submit control is enabled and shows no spinner, and the error element,
  where the page has one, shows the message.
\<close>

definition detail_idle_with_error :: "detail_page \<Rightarrow> jsstring \<Rightarrow> bool" where
  "detail_idle_with_error s msg \<longleftrightarrow>
     \<not> isRendering s \<and> \<not> generateButtonDisabled s
     \<and> (case detailDocument s ''renderSpinner'' of None \<Rightarrow> True | Some spinner \<Rightarrow> hidden spinner)
     \<and> (detailDocument s ''renderError'' \<noteq> None \<longrightarrow>
          displays (detailDocument s) ''renderError'' msg)"

definition planning_idle_with_error :: "planning_page \<Rightarrow> jsstring \<Rightarrow> bool" where
  "planning_idle_with_error s msg \<longleftrightarrow>
     \<not> isPlanningRendering s \<and> \<not> generateBtnDisabled s
     \<and> generateBtnMarkup s = GenerateLabelMarkup
     \<and> (planningDocument s ''planningError'' \<noteq> None \<longrightarrow>
          displays (planningDocument s) ''planningError'' msg)"

text \<open>Sample responses: a server error with and without an \<open>error\<close> entry, and a success.\<close>

definition response_500_plain :: response where
  "response_500_plain =
     \<lparr>status = 500, statusText = js ''Internal Server Error'',
      body = Json \<lparr>error_entry = None, generated_image_base64 = None, mime_type = None\<rparr>\<rparr>"

definition response_500_quota :: response where
  "response_500_quota =
     \<lparr>status = 500, statusText = js ''Internal Server Error'',
      body = Json \<lparr>error_entry = Some (js ''quota exceeded''),
                   generated_image_base64 = None, mime_type = None\<rparr>\<rparr>"

definition response_200_image :: response where
  "response_200_image =
     \<lparr>status = 200, statusText = js ''OK'',
      body = Json \<lparr>error_entry = None,
                   generated_image_base64 = Some (js ''iVBORw0KGgo=''),
                   mime_type = Some (js ''image/png'')\<rparr>\<rparr>"

text \<open>The detail form carries no description: the fields the handler checks are blank.\<close>

definition noDescription :: "detail_form \<Rightarrow> bool" where
  "noDescription f \<longleftrightarrow>
     trim (custom_description f) = [] \<and> trim (overall_description f) = []
     \<and> trim (highrise_count f) = [] \<and> trim (highrise_floors f) = []"

text \<open>
  The detail page after a first render has succeeded, the regenerate button (shown with
  the result) has been clicked, and the user has cleared the form while that second render
  is pending.
\<close>

definition detail_cleared_while_busy :: detail_page where
  "detail_cleared_while_busy =
     detail_run detail_ready
       [ClickGenerate, FetchSettled (Response response_200_image) (js ''0.3''), ClickGenerate,
        FormInput blank_form]"

text \<open>
  The inputs the planning page's button asks for: both plans, at least one lot card, and at
  least one description that is not blank. The two invariants say that a submit control is
  never enabled, and no request pending, without the uploaded images.
\<close>

definition planning_inputs_present :: "planning_page \<Rightarrow> bool" where
  "planning_inputs_present s \<longleftrightarrow>
     currentSitePlanImage s \<noteq> None \<and> currentLotMapImage s \<noteq> None
     \<and> (case lotCardsContainer s of
           None \<Rightarrow> False
         | Some cards \<Rightarrow>
             cards \<noteq> []
             \<and> (\<exists>c \<in> set cards. case descriptionInput c of
                                     None \<Rightarrow> False
                                   | Some v \<Rightarrow> trim v \<noteq> []))"

definition planning_plans_inv :: "planning_page \<Rightarrow> bool" where
  "planning_plans_inv s \<longleftrightarrow>
     (\<not> generateBtnDisabled s \<or> planningPending s > 0 \<longrightarrow>
        currentSitePlanImage s \<noteq> None \<and> currentLotMapImage s \<noteq> None)"

definition detail_sketch_inv :: "detail_page \<Rightarrow> bool" where
  "detail_sketch_inv s \<longleftrightarrow>
     (\<not> generateButtonDisabled s \<or> pending s > 0 \<longrightarrow> currentSketchImage s \<noteq> None)"

text \<open>The events whose handlers end by calling \<open>updateGenerateButton\<close>.\<close>

fun changes_inputs :: "planning_event \<Rightarrow> bool" where
  "changes_inputs (SitePlanLoaded url) = True"
| "changes_inputs (LotMapLoaded url) = True"
| "changes_inputs ClickAddLot = True"
| "changes_inputs (ClickRemoveLot i) = True"
| "changes_inputs (InputDescription i v) = True"
| "changes_inputs (InputNumber i v) = False"
| "changes_inputs ClickGeneratePlanning = False"
| "changes_inputs (PlanningFetchSettled res) = False"

text \<open>
  The planning page after the only lot card has been removed while a render was pending,
  before and after that render's response has arrived.
\<close>

definition planning_removed_while_busy :: planning_page where
  "planning_removed_while_busy =
     planning_run planning_ready [ClickGeneratePlanning, ClickRemoveLot 0]"

definition planning_removed_then_settled :: planning_page where
  "planning_removed_then_settled =
     planning_step planning_removed_while_busy
       (PlanningFetchSettled (Response response_200_image))"




section \<open>Properties of the image optimisation\<close>

lemma mathRound_of_int: "mathRound (of_int n) = n"
  unfolding mathRound_def by linarith


lemma resized_2000_1000: "resizedDimensions 2000 1000 = (1024, 512)"
proof -
  have r: "resizeRatio 2000 1000 = 64 / 125"
    by (simp add: resizeRatio_def MAX_DIMENSION_def)
  have m: "mathRound 1024 = 1024" "mathRound 512 = 512"
    using mathRound_of_int[of 1024] mathRound_of_int[of 512] by simp_all
  show ?thesis
    by (simp add: resizedDimensions_def MAX_DIMENSION_def r m)
qed


lemma resized_small:
  "width \<le> MAX_DIMENSION \<Longrightarrow> height \<le> MAX_DIMENSION \<Longrightarrow>
   resizedDimensions width height = (width, height)"
  by (simp add: resizedDimensions_def)

text \<open>
  In exact arithmetic no side of the canvas exceeds 1024, whatever the size of the image.
\<close>

lemma mathRound_mono: "x \<le> y \<Longrightarrow> mathRound x \<le> mathRound y"
  unfolding mathRound_def by (simp add: floor_mono)

lemma resizeRatio_bounds:
  assumes "0 < width" "0 < height"
  shows "of_nat width * resizeRatio width height \<le> of_nat MAX_DIMENSION"
    and "of_nat height * resizeRatio width height \<le> of_nat MAX_DIMENSION"
proof -
  have r: "resizeRatio width height
           = min (of_nat MAX_DIMENSION / of_nat width) (of_nat MAX_DIMENSION / of_nat height)"
    using assms by (simp add: resizeRatio_def)
  have "of_nat width * resizeRatio width height
        \<le> of_nat width * (of_nat MAX_DIMENSION / of_nat width)"
    unfolding r by (intro mult_left_mono) simp_all
  also have "\<dots> = of_nat MAX_DIMENSION"
    using assms by simp
  finally show "of_nat width * resizeRatio width height \<le> of_nat MAX_DIMENSION" .
  have "of_nat height * resizeRatio width height
        \<le> of_nat height * (of_nat MAX_DIMENSION / of_nat height)"
    unfolding r by (intro mult_left_mono) simp_all
  also have "\<dots> = of_nat MAX_DIMENSION"
    using assms by simp
  finally show "of_nat height * resizeRatio width height \<le> of_nat MAX_DIMENSION" .
qed

lemma resized_bounded:
  assumes "0 < width" "0 < height"
  shows "fst (resizedDimensions width height) \<le> MAX_DIMENSION"
    and "snd (resizedDimensions width height) \<le> MAX_DIMENSION"
proof -
  have m: "mathRound (of_nat MAX_DIMENSION) = int MAX_DIMENSION"
    using mathRound_of_int[of "int MAX_DIMENSION"] by simp
  have "mathRound (of_nat width * resizeRatio width height) \<le> int MAX_DIMENSION"
    "mathRound (of_nat height * resizeRatio width height) \<le> int MAX_DIMENSION"
    using mathRound_mono[OF resizeRatio_bounds(1)[OF assms]]
      mathRound_mono[OF resizeRatio_bounds(2)[OF assms]] m by simp_all
  then show "fst (resizedDimensions width height) \<le> MAX_DIMENSION"
    "snd (resizedDimensions width height) \<le> MAX_DIMENSION"
    by (auto simp: resizedDimensions_def Let_def)
qed

text \<open>
  Claim C2. A 2000 by 1000 image is drawn on a canvas whose longer side is at most 1024 and
  whose sides are in the ratio of the input (here exactly: 1024 by 512), by both copies of
  \<open>optimizeImageForUpload\<close>; an image with both sides at most 1024 keeps its size. (In
  IEEE doubles the ratio is 0.512 and the two products are 1024.0 and 512.0 as well.)
\<close>

theorem optimize_2000_by_1000:
  "(case resizedDimensions 2000 1000 of
      (w, h) \<Rightarrow> max w h \<le> MAX_DIMENSION \<and> w * 1000 = h * 2000
        \<and> optimizeImageForUpload (ImageFile (Loaded 2000 1000)) = Fulfilled (Some (CanvasPng w h))
        \<and> optimizeImageForUpload_utils (ImageFile (Loaded 2000 1000))
            = Fulfilled (Some (CanvasPng w h)))
   \<and> (width \<le> MAX_DIMENSION \<and> height \<le> MAX_DIMENSION
        \<longrightarrow> resizedDimensions width height = (width, height))"
  by (simp add: resized_2000_1000 resized_small MAX_DIMENSION_def optimizeImageForUpload_def
      optimizeImageForUpload_utils_def canvas_toBlob_def)

theorem optimize_2000_by_1000_witness:
  "resizedDimensions 2000 1000 = (1024, 512) \<and> resizedDimensions 800 600 = (800, 600)"
  using optimize_2000_by_1000[of 800 600] by (simp add: MAX_DIMENSION_def resized_2000_1000)

section \<open>Properties of trim\<close>

lemma last_dropWhile_nonempty:
  "dropWhile P xs \<noteq> [] \<Longrightarrow> last (dropWhile P xs) = last xs"
  by (induction xs) (auto split: if_splits)

text \<open>Trimming twice is trimming once: a trimmed string starts and ends with no white space.\<close>

lemma trim_idem: "trim (trim s) = trim s"
proof -
  define t where "t = dropWhile isWhiteSpace s"
  define u where "u = dropWhile isWhiteSpace (rev t)"
  have ts: "trim s = rev u"
    by (simp add: trim_def t_def u_def)
  have a: "dropWhile isWhiteSpace (rev u) = rev u"
  proof (cases "u = []")
    case True
    then show ?thesis by simp
  next
    case False
    then have "last u = last (rev t)"
      unfolding u_def by (rule last_dropWhile_nonempty)
    moreover from False have "t \<noteq> []"
      unfolding u_def by auto
    ultimately have "last u = hd t"
      by (simp add: last_rev)
    moreover have "\<not> isWhiteSpace (hd t)"
      using \<open>t \<noteq> []\<close> unfolding t_def by (rule hd_dropWhile)
    ultimately have "\<not> isWhiteSpace (hd (rev u))"
      using False by (simp add: hd_rev)
    then show ?thesis
      by (simp add: dropWhile_eq_self_iff)
  qed
  have b: "dropWhile isWhiteSpace u = u"
    unfolding u_def by simp
  have "trim (rev u) = rev u"
    by (simp add: trim_def a b)
  then show ?thesis
    by (simp add: ts)
qed

lemma trim_js_examples:
  "trim (js ''Villa'') = js ''Villa''" "trim (js ''  '') = []" "trim [] = []"
  "trim (js '' hello '') = js ''hello''"
  by (simp_all add: trim_def js_def isWhiteSpace_def)

lemma js_nonempty: "js (c # cs) \<noteq> []"
  by (simp add: js_def)

lemma decimal_digit: "n < 10 \<Longrightarrow> decimal n = [of_nat (48 + n)]"
  by (simp add: decimal.simps)

lemma decimal_examples:
  "decimal (Suc 0) = js ''1''" "decimal 2 = js ''2''" "decimal 500 = js ''500''"
  by (simp_all add: decimal.simps js_def)

section \<open>The sample states, evaluated\<close>

lemma detail_ready_eval:
  "detail_ready =
     detail_initial\<lparr>currentSketchImage := Some (js ''data:sketch''),
                    generateButtonDisabled := False,
                    formControls := blank_form\<lparr>custom_description := js ''Riverside towers''\<rparr>\<rparr>"
  by (simp add: detail_ready_def detail_run_def sketchLoaded_def)

lemma detail_busy_eval:
  "detail_busy =
     detail_ready\<lparr>isRendering := True,
                  generateButtonDisabled := True,
                  detailDocument :=
                    [''renderError'' \<mapsto> \<lparr>textContent = [], hidden = True\<rparr>,
                     ''renderSuccess'' \<mapsto> \<lparr>textContent = [], hidden = True\<rparr>,
                     ''renderSpinner'' \<mapsto> \<lparr>textContent = [], hidden = False\<rparr>],
                  posts := [\<lparr>image_base64 = Some (js ''data:sketch''),
                             planning_data =
                               \<lparr>planning_description = js ''Riverside towers'',
                                structured_data =
                                  blank_form\<lparr>custom_description := js ''Riverside towers''\<rparr>\<rparr>\<rparr>],
                  pending := 1\<rparr>"
  apply (simp add: detail_busy_def detail_ready_eval generateRender_def)
  apply (simp add: detail_initial_def falsy_def truthy_def js_nonempty Let_def collectFormData_def
      blank_form_def showSpinner_def hideError_def hideSuccess_def)
  apply (simp add: trim_def js_def isWhiteSpace_def fun_eq_iff)
  done

lemma planning_ready_eval:
  "planning_ready =
     planning_initial\<lparr>currentSitePlanImage := Some (js ''data:a''),
                      currentLotMapImage := Some (js ''data:b''),
                      lotCardsContainer :=
                        Some [\<lparr>numberInput = Some (js ''1''), descriptionInput = Some (js ''Villa'')\<rparr>],
                      generateBtnDisabled := False\<rparr>"
  by (simp add: planning_ready_def planning_run_def planning_initial_def sitePlanLoaded_def
      lotMapLoaded_def addLotDescription_def inputDescription_def updateGenerateButton_def decimal_digit
      Let_def trim_def js_def isWhiteSpace_def)

lemma planning_busy_eval:
  "planning_busy =
     planning_ready\<lparr>isPlanningRendering := True,
                    generateBtnDisabled := True,
                    generateBtnMarkup := SpinnerMarkup,
                    planningPosts :=
                      [\<lparr>site_plan_base64 = Some (js ''data:a''), lot_map_base64 = Some (js ''data:b''),
                        lot_descriptions = [\<lparr>lot_number = js ''1'', description = js ''Villa''\<rparr>],
                        camera_angle = js ''aerial'', time_of_day = js ''day'',
                        aspect_ratio = js ''16:9'', style_keywords = []\<rparr>],
                    planningPending := 1\<rparr>"
  apply (simp add: planning_busy_def planning_ready_eval generatePlanningRender_def)
  apply (simp add: planning_initial_def falsy_def truthy_def js_nonempty Let_def
      collectLotDescriptions_def hideError_def hideSuccess_def trim_js_examples)
  apply (simp add: trim_def js_def isWhiteSpace_def fun_eq_iff)
  done

section \<open>Properties of the message helpers\<close>

lemma displays_showError:
  "doc elementId \<noteq> None \<Longrightarrow> displays (showError elementId msg doc) elementId msg"
  by (auto simp: displays_def showError_def)

lemma showError_exists [simp]: "showError elementId msg doc k = None \<longleftrightarrow> doc k = None"
  by (simp add: showError_def split: option.splits)

lemma showSpinner_other [simp]: "k \<noteq> spinnerId \<Longrightarrow> showSpinner spinnerId b doc k = doc k"
  by (simp add: showSpinner_def split: option.splits)

lemma showSpinner_hidden:
  "(case showSpinner spinnerId False doc spinnerId of None \<Rightarrow> True | Some sp \<Rightarrow> hidden sp)"
  by (simp add: showSpinner_def split: option.splits)

section \<open>Lot descriptions sent to the server\<close>

lemma collectCards_append: "collectCards (xs @ ys) = collectCards xs @ collectCards ys"
  by (induction xs) (simp_all add: Let_def)

lemma collectCards_member:
  "l \<in> set (collectCards cards) \<Longrightarrow>
   truthy (lot_number l) \<and> truthy (description l)
   \<and> trim (lot_number l) = lot_number l \<and> trim (description l) = description l"
  by (induction cards) (auto simp: Let_def trim_idem truthy_def split: if_splits option.splits)

lemma collected_nonblank:
  "l \<in> set (collectLotDescriptions container) \<Longrightarrow>
   trim (lot_number l) \<noteq> [] \<and> trim (description l) \<noteq> []"
proof -
  assume "l \<in> set (collectLotDescriptions container)"
  then obtain cards where "l \<in> set (collectCards cards)"
    by (cases container) (auto simp: collectLotDescriptions_def)
  then show ?thesis
    using collectCards_member[of l cards] by (simp add: truthy_def)
qed

lemma collectCards_blank: "blankCard c \<Longrightarrow> collectCards (c # cards) = collectCards cards"
  by (auto simp: blankCard_def Let_def truthy_def split: option.splits)

text \<open>Only \<open>generatePlanningRender\<close> posts; every other handler leaves the network alone.\<close>

lemma planning_other_posts [simp]:
  "planningPosts (updateGenerateButton s) = planningPosts s"
  "planningPosts (sitePlanLoaded url s) = planningPosts s"
  "planningPosts (lotMapLoaded url s) = planningPosts s"
  "planningPosts (addLotDescription s) = planningPosts s"
  "planningPosts (updateLotNumbers s) = planningPosts s"
  "planningPosts (removeLot i s) = planningPosts s"
  "planningPosts (inputDescription i v s) = planningPosts s"
  "planningPosts (inputNumber i v s) = planningPosts s"
  "planningPosts (generatePlanningRender_resume res s) = planningPosts s"
  by (simp_all add: updateGenerateButton_def sitePlanLoaded_def lotMapLoaded_def
      addLotDescription_def updateLotNumbers_def removeLot_def inputDescription_def
      inputNumber_def generatePlanningRender_resume_def generatePlanningRender_finally_def
      generatePlanningRender_catch_def displayPlanningRender_def Let_def
      split: option.splits sum.splits)

lemma generatePlanningRender_posts:
  "planningPosts (generatePlanningRender s) = planningPosts s
   \<or> (\<exists>req. planningPosts (generatePlanningRender s) = planningPosts s @ [req]
        \<and> lot_descriptions req = collectLotDescriptions (lotCardsContainer s)
        \<and> lot_descriptions req \<noteq> [])"
  by (simp add: generatePlanningRender_def Let_def)

lemma planning_step_posts:
  "req \<in> set (planningPosts (planning_step s e)) \<Longrightarrow>
   req \<in> set (planningPosts s) \<or> nonblank_lots req"
proof (cases e)
  case ClickGeneratePlanning
  assume r: "req \<in> set (planningPosts (planning_step s e))"
  from generatePlanningRender_posts[of s] show ?thesis
  proof
    assume "planningPosts (generatePlanningRender s) = planningPosts s"
    with r ClickGeneratePlanning show ?thesis by simp
  next
    assume "\<exists>q. planningPosts (generatePlanningRender s) = planningPosts s @ [q]
        \<and> lot_descriptions q = collectLotDescriptions (lotCardsContainer s)
        \<and> lot_descriptions q \<noteq> []"
    then obtain q where q: "planningPosts (generatePlanningRender s) = planningPosts s @ [q]"
      "lot_descriptions q = collectLotDescriptions (lotCardsContainer s)"
      "lot_descriptions q \<noteq> []"
      by blast
    have "nonblank_lots q"
      unfolding nonblank_lots_def using q(2,3) collected_nonblank by auto
    with r ClickGeneratePlanning q(1) show ?thesis by auto
  qed
qed (auto split: if_splits)

lemma planning_run_snoc:
  "planning_run s (events @ [e]) = planning_step (planning_run s events) e"
  by (simp add: planning_run_def)

lemma planning_run_posts:
  "req \<in> set (planningPosts (planning_run s events)) \<Longrightarrow>
   req \<in> set (planningPosts s) \<or> nonblank_lots req"
proof (induction events arbitrary: req rule: rev_induct)
  case Nil
  then show ?case by (simp add: planning_run_def)
next
  case (snoc e events)
  from snoc.prems have "req \<in> set (planningPosts (planning_run s events)) \<or> nonblank_lots req"
    unfolding planning_run_snoc by (rule planning_step_posts)
  with snoc.IH show ?case by blast
qed

text \<open>
  A run of the planning page: both plans are uploaded, a first card is described, a second
  card is left blank, and the render is requested.
\<close>

lemma planning_run_sample:
  "planningPosts (planning_run planning_initial
      [SitePlanLoaded (js ''data:a''), LotMapLoaded (js ''data:b''), ClickAddLot,
       InputDescription 0 (js ''Villa''), ClickAddLot, InputDescription (Suc 0) (js ''  ''),
       ClickGeneratePlanning])
   = [\<lparr>site_plan_base64 = Some (js ''data:a''), lot_map_base64 = Some (js ''data:b''),
       lot_descriptions = [\<lparr>lot_number = js ''1'', description = js ''Villa''\<rparr>],
       camera_angle = js ''aerial'', time_of_day = js ''day'', aspect_ratio = js ''16:9'',
       style_keywords = []\<rparr>]"
  by (simp add: planning_run_def planning_initial_def sitePlanLoaded_def lotMapLoaded_def
      addLotDescription_def inputDescription_def updateGenerateButton_def decimal_digit
      generatePlanningRender_def collectLotDescriptions_def falsy_def truthy_def Let_def
      trim_def js_def isWhiteSpace_def hideError_def hideSuccess_def)

text \<open>
  Claim C10. Every request the planning page ever posts carries a lot list that is not
  empty and whose entries have a non-blank number and a non-blank description; a card with
  a blank number or description contributes nothing to the list; and with an empty list
  \<open>generatePlanningRender\<close> posts nothing.
\<close>

theorem lot_descriptions_sent_nonblank:
  "(\<forall>req \<in> set (planningPosts (planning_run s events)).
      req \<in> set (planningPosts s) \<or> nonblank_lots req)
   \<and> (blankCard c \<longrightarrow>
        collectLotDescriptions (Some (before @ c # after))
        = collectLotDescriptions (Some (before @ after)))
   \<and> (collectLotDescriptions (lotCardsContainer s') = [] \<longrightarrow>
        planningPosts (generatePlanningRender s') = planningPosts s'
        \<and> planningPending (generatePlanningRender s') = planningPending s')"
proof (intro conjI ballI impI)
  fix req assume "req \<in> set (planningPosts (planning_run s events))"
  then show "req \<in> set (planningPosts s) \<or> nonblank_lots req"
    by (rule planning_run_posts)
next
  assume "blankCard c"
  then show "collectLotDescriptions (Some (before @ c # after))
        = collectLotDescriptions (Some (before @ after))"
    by (simp add: collectLotDescriptions_def collectCards_append collectCards_blank
        del: collectCards.simps)
next
  assume "collectLotDescriptions (lotCardsContainer s') = []"
  then show "planningPosts (generatePlanningRender s') = planningPosts s'"
    by (simp add: generatePlanningRender_def)
next
  assume "collectLotDescriptions (lotCardsContainer s') = []"
  then show "planningPending (generatePlanningRender s') = planningPending s'"
    by (simp add: generatePlanningRender_def)
qed

theorem lot_descriptions_sent_nonblank_witness:
  "nonblank_lots
     \<lparr>site_plan_base64 = Some (js ''data:a''), lot_map_base64 = Some (js ''data:b''),
      lot_descriptions = [\<lparr>lot_number = js ''1'', description = js ''Villa''\<rparr>],
      camera_angle = js ''aerial'', time_of_day = js ''day'', aspect_ratio = js ''16:9'',
      style_keywords = []\<rparr>
   \<and> collectLotDescriptions
        (Some [\<lparr>numberInput = Some (js ''1''), descriptionInput = Some (js ''Villa'')\<rparr>,
               \<lparr>numberInput = Some (js ''2''), descriptionInput = Some (js ''  '')\<rparr>])
      = collectLotDescriptions
        (Some [\<lparr>numberInput = Some (js ''1''), descriptionInput = Some (js ''Villa'')\<rparr>])
   \<and> planningPosts (generatePlanningRender planning_initial) = []"
proof -
  have b: "blankCard \<lparr>numberInput = Some (js ''2''), descriptionInput = Some (js ''  '')\<rparr>"
    by (simp add: blankCard_def trim_js_examples)
  have e: "collectLotDescriptions (lotCardsContainer planning_initial) = []"
    by (simp add: planning_initial_def collectLotDescriptions_def)
  have p: "planningPosts planning_initial = []"
    by (simp add: planning_initial_def)
  show ?thesis
    using lot_descriptions_sent_nonblank
      [of planning_initial
          "[SitePlanLoaded (js ''data:a''), LotMapLoaded (js ''data:b''), ClickAddLot,
            InputDescription 0 (js ''Villa''), ClickAddLot, InputDescription (Suc 0) (js ''  ''),
            ClickGeneratePlanning]"
          "\<lparr>numberInput = Some (js ''2''), descriptionInput = Some (js ''  '')\<rparr>"
          "[\<lparr>numberInput = Some (js ''1''), descriptionInput = Some (js ''Villa'')\<rparr>]"
          "[]" planning_initial]
    by (simp add: planning_run_sample b e p)
qed

section \<open>The description sent by the detail page\<close>




section \<open>One render request in flight\<close>

text \<open>
  What \<open>generateRender\<close> and \<open>generatePlanningRender\<close> do to the flag and to the
  network, and that every other handler leaves both alone.
\<close>

lemma generateRender_flag_set:
  "isRendering s \<Longrightarrow> posts (generateRender s) = posts s \<and> pending (generateRender s) = pending s
     \<and> isRendering (generateRender s)"
  by (simp add: generateRender_def)

lemma generateRender_pending:
  "pending (generateRender s) = pending s
   \<or> (\<not> isRendering s \<and> isRendering (generateRender s)
       \<and> pending (generateRender s) = Suc (pending s))"
  by (simp add: generateRender_def generateRender_finally_def generateRender_catch_def Let_def
      split: sum.splits)

lemma generateRender_keeps_flag:
  "pending (generateRender s) = pending s \<Longrightarrow> isRendering s \<Longrightarrow> isRendering (generateRender s)"
  by (simp add: generateRender_def)

lemma generateRender_resume_frame:
  "\<not> isRendering (generateRender_resume res t s)"
  "pending (generateRender_resume res t s) = pending s"
  "posts (generateRender_resume res t s) = posts s"
  by (simp_all add: generateRender_resume_def generateRender_finally_def generateRender_catch_def
      displayRenderedImage_def Let_def split: sum.splits)

lemma detail_step_inv: "detail_inv s \<Longrightarrow> detail_inv (detail_step s e)"
proof (cases e)
  case ClickGenerate
  assume i: "detail_inv s"
  from generateRender_pending[of s] show ?thesis
  proof
    assume same: "pending (generateRender s) = pending s"
    with i generateRender_keeps_flag[of s] ClickGenerate show ?thesis
      by (auto simp: detail_inv_def)
  next
    assume "\<not> isRendering s \<and> isRendering (generateRender s)
       \<and> pending (generateRender s) = Suc (pending s)"
    with i ClickGenerate show ?thesis
      by (auto simp: detail_inv_def)
  qed
next
  case (FetchSettled res t)
  assume "detail_inv s"
  with FetchSettled show ?thesis
    by (auto simp: detail_inv_def generateRender_resume_frame)
qed (auto simp: detail_inv_def sketchLoaded_def)

lemma detail_run_snoc: "detail_run s (events @ [e]) = detail_step (detail_run s events) e"
  by (simp add: detail_run_def)

lemma detail_run_inv: "detail_inv s \<Longrightarrow> detail_inv (detail_run s events)"
proof (induction events rule: rev_induct)
  case Nil
  then show ?case by (simp add: detail_run_def)
next
  case (snoc e events)
  then show ?case by (simp add: detail_run_snoc detail_step_inv)
qed

lemma generatePlanningRender_flag_set:
  "isPlanningRendering s \<Longrightarrow>
   planningPosts (generatePlanningRender s) = planningPosts s
   \<and> planningPending (generatePlanningRender s) = planningPending s
   \<and> isPlanningRendering (generatePlanningRender s)"
  by (simp add: generatePlanningRender_def Let_def)

lemma generatePlanningRender_pending:
  "(planningPending (generatePlanningRender s) = planningPending s
    \<and> isPlanningRendering (generatePlanningRender s) = isPlanningRendering s)
   \<or> (\<not> isPlanningRendering s \<and> isPlanningRendering (generatePlanningRender s)
       \<and> planningPending (generatePlanningRender s) = Suc (planningPending s))"
  by (simp add: generatePlanningRender_def Let_def)

lemma generatePlanningRender_resume_frame:
  "\<not> isPlanningRendering (generatePlanningRender_resume res s)"
  "planningPending (generatePlanningRender_resume res s) = planningPending s"
  by (simp_all add: generatePlanningRender_resume_def generatePlanningRender_finally_def
      generatePlanningRender_catch_def displayPlanningRender_def Let_def
      split: sum.splits option.splits)

lemma planning_other_pending [simp]:
  "planningPending (updateGenerateButton s) = planningPending s"
  "planningPending (sitePlanLoaded url s) = planningPending s"
  "planningPending (lotMapLoaded url s) = planningPending s"
  "planningPending (addLotDescription s) = planningPending s"
  "planningPending (removeLot i s) = planningPending s"
  "planningPending (inputDescription i v s) = planningPending s"
  "planningPending (inputNumber i v s) = planningPending s"
  "isPlanningRendering (updateGenerateButton s) = isPlanningRendering s"
  "isPlanningRendering (sitePlanLoaded url s) = isPlanningRendering s"
  "isPlanningRendering (lotMapLoaded url s) = isPlanningRendering s"
  "isPlanningRendering (addLotDescription s) = isPlanningRendering s"
  "isPlanningRendering (removeLot i s) = isPlanningRendering s"
  "isPlanningRendering (inputDescription i v s) = isPlanningRendering s"
  "isPlanningRendering (inputNumber i v s) = isPlanningRendering s"
  by (simp_all add: updateGenerateButton_def sitePlanLoaded_def lotMapLoaded_def
      addLotDescription_def updateLotNumbers_def removeLot_def inputDescription_def
      inputNumber_def Let_def split: option.splits)

lemma planning_step_inv: "planning_inv s \<Longrightarrow> planning_inv (planning_step s e)"
proof (cases e)
  case ClickGeneratePlanning
  assume i: "planning_inv s"
  from generatePlanningRender_pending[of s] i ClickGeneratePlanning show ?thesis
    by (auto simp: planning_inv_def)
next
  case (PlanningFetchSettled res)
  assume "planning_inv s"
  with PlanningFetchSettled show ?thesis
    by (auto simp: planning_inv_def generatePlanningRender_resume_frame)
qed (auto simp: planning_inv_def)

lemma planning_run_inv: "planning_inv s \<Longrightarrow> planning_inv (planning_run s events)"
proof (induction events rule: rev_induct)
  case Nil
  then show ?case by (simp add: planning_run_def)
next
  case (snoc e events)
  then show ?case by (simp add: planning_run_snoc planning_step_inv)
qed

text \<open>
  Claim C1. From a state with nothing pending, whatever the user does and however the
  fetches settle, each page has at most one render request pending and its flag is set
  while one is; a submit while the flag is set posts nothing; a submit that posts leaves
  the flag set; and the continuation clears the flag whether the request succeeded or
  failed.
\<close>

theorem one_render_request_in_flight:
  "(pending d = 0 \<longrightarrow> detail_inv (detail_run d events))
   \<and> (planningPending p = 0 \<longrightarrow> planning_inv (planning_run p pevents))
   \<and> (isRendering s \<longrightarrow>
        posts (generateRender s) = posts s \<and> pending (generateRender s) = pending s)
   \<and> (isPlanningRendering q \<longrightarrow>
        planningPosts (generatePlanningRender q) = planningPosts q
        \<and> planningPending (generatePlanningRender q) = planningPending q)
   \<and> (pending (generateRender s') \<noteq> pending s' \<longrightarrow> isRendering (generateRender s'))
   \<and> (planningPending (generatePlanningRender q') \<noteq> planningPending q' \<longrightarrow>
        isPlanningRendering (generatePlanningRender q'))
   \<and> \<not> isRendering (generateRender_resume res elapsedTime s'')
   \<and> \<not> isPlanningRendering (generatePlanningRender_resume res' q'')"
proof (intro conjI impI)
  assume "pending d = 0"
  then have "detail_inv d" by (simp add: detail_inv_def)
  then show "detail_inv (detail_run d events)" by (rule detail_run_inv)
next
  assume "planningPending p = 0"
  then have "planning_inv p" by (simp add: planning_inv_def)
  then show "planning_inv (planning_run p pevents)" by (rule planning_run_inv)
next
  assume "isRendering s"
  then show "posts (generateRender s) = posts s" "pending (generateRender s) = pending s"
    using generateRender_flag_set by simp_all
next
  assume "isPlanningRendering q"
  then show "planningPosts (generatePlanningRender q) = planningPosts q"
    "planningPending (generatePlanningRender q) = planningPending q"
    using generatePlanningRender_flag_set by simp_all
next
  assume "pending (generateRender s') \<noteq> pending s'"
  then show "isRendering (generateRender s')"
    using generateRender_pending[of s'] by simp
next
  assume "planningPending (generatePlanningRender q') \<noteq> planningPending q'"
  then show "isPlanningRendering (generatePlanningRender q')"
    using generatePlanningRender_pending[of q'] by simp
next
  show "\<not> isRendering (generateRender_resume res elapsedTime s'')"
    by (rule generateRender_resume_frame)
next
  show "\<not> isPlanningRendering (generatePlanningRender_resume res' q'')"
    by (rule generatePlanningRender_resume_frame)
qed


theorem one_render_request_in_flight_witness:
  "detail_inv (detail_run detail_ready [ClickGenerate, ClickGenerate])
   \<and> planning_inv (planning_run planning_ready [ClickGeneratePlanning, ClickGeneratePlanning])
   \<and> pending detail_busy = 1
   \<and> posts (generateRender detail_busy) = posts detail_busy
   \<and> pending (generateRender detail_busy) = 1
   \<and> planningPending planning_busy = 1
   \<and> planningPosts (generatePlanningRender planning_busy) = planningPosts planning_busy
   \<and> planningPending (generatePlanningRender planning_busy) = 1
   \<and> isRendering (generateRender detail_ready)
   \<and> isPlanningRendering (generatePlanningRender planning_ready)
   \<and> \<not> isRendering
         (generateRender_resume (NetworkFailure (JsError (js ''Failed to fetch''))) (js ''0.3'')
            detail_busy)
   \<and> \<not> isPlanningRendering
         (generatePlanningRender_resume (NetworkFailure (JsError (js ''Failed to fetch'')))
            planning_busy)"
proof -
  have d0: "pending detail_ready = 0" and p0: "planningPending planning_ready = 0"
    by (simp_all add: detail_ready_eval detail_initial_def planning_ready_eval planning_initial_def)
  have d1: "isRendering detail_busy" "pending detail_busy = 1"
    by (simp_all add: detail_busy_eval)
  have p1: "isPlanningRendering planning_busy" "planningPending planning_busy = 1"
    by (simp_all add: planning_busy_eval)
  have d2: "generateRender detail_ready = detail_busy"
    and p2: "generatePlanningRender planning_ready = planning_busy"
    by (simp_all add: detail_busy_def planning_busy_def)
  show ?thesis
    using one_render_request_in_flight
      [where d = detail_ready and events = "[ClickGenerate, ClickGenerate]"
         and p = planning_ready and pevents = "[ClickGeneratePlanning, ClickGeneratePlanning]"
         and s = detail_busy and q = planning_busy and s' = detail_ready and q' = planning_ready
         and res = "NetworkFailure (JsError (js ''Failed to fetch''))"
         and elapsedTime = "js ''0.3''" and s'' = detail_busy
         and res' = "NetworkFailure (JsError (js ''Failed to fetch''))" and q'' = planning_busy]
    by (simp add: d0 p0 d1 p1 d2 p2)
qed

section \<open>Errors of a render action\<close>

text \<open>
  Whatever is thrown inside the \<open>try\<close> block reaches the \<open>catch\<close> block, which shows
  the message, and then the \<open>finally\<close> block, which restores the controls.
\<close>

lemma generateRender_error_path:
  "detail_idle_with_error (generateRender_finally (generateRender_catch e s))
     (render_error_prefix @ message e)"
  by (auto simp: detail_idle_with_error_def generateRender_finally_def generateRender_catch_def
      showSpinner_hidden displays_def showError_def showSpinner_def
      split: option.splits)

lemma generateRender_resume_error:
  "detailResponseData res = Inl e \<Longrightarrow>
   generateRender_resume res elapsedTime s = generateRender_finally (generateRender_catch e s)"
  by (simp add: generateRender_resume_def)

lemma generatePlanningRender_error_path:
  "planning_idle_with_error (generatePlanningRender_finally (generatePlanningRender_catch e s))
     (planning_error_prefix @ message e)"
  by (auto simp: planning_idle_with_error_def generatePlanningRender_finally_def
      generatePlanningRender_catch_def displays_def showError_def split: option.splits)

lemma generatePlanningRender_resume_error:
  "planningResponseData res = Inl e \<Longrightarrow>
   generatePlanningRender_resume res s
   = generatePlanningRender_finally (generatePlanningRender_catch e s)"
  by (simp add: generatePlanningRender_resume_def)

lemma responseData_failures:
  "detailResponseData (NetworkFailure e) = Inl e"
  "planningResponseData (NetworkFailure e) = Inl e"
  "\<not> ok r \<Longrightarrow> isl (detailResponseData (Response r))"
  "\<not> ok r \<Longrightarrow> isl (planningResponseData (Response r))"
  "body r = NotJson e \<Longrightarrow> detailResponseData (Response r) = Inl e"
  "body r = NotJson e \<Longrightarrow> planningResponseData (Response r) = Inl e"
  by (simp_all add: detailResponseData_def planningResponseData_def split: response_body.splits)

lemma generateRender_throwing_form:
  assumes "\<not> falsy (currentSketchImage s)" "\<not> isRendering s"
    and "truthy (trim (overall_description (formControls s)))
         \<or> truthy (trim (highrise_count (formControls s)))
         \<or> truthy (trim (highrise_floors (formControls s)))"
    and "collectFormData (formControls s) = Inl e"
  shows "detail_idle_with_error (generateRender s) (render_error_prefix @ message e)
         \<and> posts (generateRender s) = posts s \<and> pending (generateRender s) = pending s"
proof -
  define s1 where "s1 = s\<lparr>isRendering := True,
                        detailDocument :=
                          hideSuccess ''renderSuccess''
                            (hideError ''renderError''
                               (showSpinner ''renderSpinner'' True (detailDocument s))),
                        generateButtonDisabled := True\<rparr>"
  have "generateRender s = generateRender_finally (generateRender_catch e s1)"
    using assms by (auto simp: generateRender_def Let_def s1_def)
  moreover have "posts (generateRender_finally (generateRender_catch e s1)) = posts s"
    "pending (generateRender_finally (generateRender_catch e s1)) = pending s"
    by (simp_all add: generateRender_finally_def generateRender_catch_def s1_def)
  ultimately show ?thesis
    using generateRender_error_path[of e s1] by simp
qed

lemma response_500_quota_data:
  "detailResponseData (Response response_500_quota) = Inl (JsError (js ''quota exceeded''))"
  "planningResponseData (Response response_500_quota) = Inl (JsError (js ''quota exceeded''))"
  by (simp_all add: detailResponseData_def planningResponseData_def response_500_quota_def
      ok_def truthy_def js_nonempty)

text \<open>
  Claim C4. An error of a render action (the fetch rejects, the response is not ok, the
  body does not parse, or reading the form throws before anything is sent) ends the
  action: the message is shown in the error element, the flag is cleared, the submit
  control is enabled again without spinner, and no further request is posted.
\<close>

theorem render_errors_terminal:
  "(detailResponseData res = Inl e \<longrightarrow>
      detail_idle_with_error (generateRender_resume res elapsedTime s)
        (render_error_prefix @ message e)
      \<and> posts (generateRender_resume res elapsedTime s) = posts s
      \<and> pending (generateRender_resume res elapsedTime s) = pending s)
   \<and> (planningResponseData res = Inl e \<longrightarrow>
      planning_idle_with_error (generatePlanningRender_resume res q)
        (planning_error_prefix @ message e)
      \<and> planningPosts (generatePlanningRender_resume res q) = planningPosts q
      \<and> planningPending (generatePlanningRender_resume res q) = planningPending q)
   \<and> (\<not> falsy (currentSketchImage s') \<and> \<not> isRendering s'
        \<and> (truthy (trim (overall_description (formControls s')))
            \<or> truthy (trim (highrise_count (formControls s')))
            \<or> truthy (trim (highrise_floors (formControls s'))))
        \<and> collectFormData (formControls s') = Inl thrown \<longrightarrow>
      detail_idle_with_error (generateRender s') (render_error_prefix @ message thrown)
      \<and> posts (generateRender s') = posts s' \<and> pending (generateRender s') = pending s')
   \<and> detailResponseData (NetworkFailure failure) = Inl failure
   \<and> planningResponseData (NetworkFailure failure) = Inl failure
   \<and> (\<not> ok r \<longrightarrow>
        isl (detailResponseData (Response r)) \<and> isl (planningResponseData (Response r)))
   \<and> (body r' = NotJson syntaxError \<longrightarrow>
        detailResponseData (Response r') = Inl syntaxError
        \<and> planningResponseData (Response r') = Inl syntaxError)"
proof (intro conjI impI)
  assume a: "detailResponseData res = Inl e"
  show "detail_idle_with_error (generateRender_resume res elapsedTime s)
        (render_error_prefix @ message e)"
    unfolding generateRender_resume_error[OF a] by (rule generateRender_error_path)
  show "posts (generateRender_resume res elapsedTime s) = posts s"
    "pending (generateRender_resume res elapsedTime s) = pending s"
    by (simp_all add: generateRender_resume_frame)
next
  assume a: "planningResponseData res = Inl e"
  show "planning_idle_with_error (generatePlanningRender_resume res q)
        (planning_error_prefix @ message e)"
    unfolding generatePlanningRender_resume_error[OF a]
    by (rule generatePlanningRender_error_path)
  show "planningPosts (generatePlanningRender_resume res q) = planningPosts q"
    "planningPending (generatePlanningRender_resume res q) = planningPending q"
    by (simp_all add: generatePlanningRender_resume_frame)
next
  assume a: "\<not> falsy (currentSketchImage s') \<and> \<not> isRendering s'
        \<and> (truthy (trim (overall_description (formControls s')))
            \<or> truthy (trim (highrise_count (formControls s')))
            \<or> truthy (trim (highrise_floors (formControls s'))))
        \<and> collectFormData (formControls s') = Inl thrown"
  then show "detail_idle_with_error (generateRender s') (render_error_prefix @ message thrown)"
    "posts (generateRender s') = posts s'" "pending (generateRender s') = pending s'"
    using generateRender_throwing_form[of s' thrown] by simp_all
next
  assume "\<not> ok r"
  then show "isl (detailResponseData (Response r))" "isl (planningResponseData (Response r))"
    by (simp_all add: responseData_failures)
next
  assume "body r' = NotJson syntaxError"
  then show "detailResponseData (Response r') = Inl syntaxError"
    "planningResponseData (Response r') = Inl syntaxError"
    by (simp_all add: responseData_failures)
qed (simp_all add: responseData_failures)

theorem render_errors_terminal_witness:
  "detail_idle_with_error
     (generateRender_resume (Response response_500_quota) (js ''0.3'') detail_busy)
     (render_error_prefix @ js ''quota exceeded'')
   \<and> displays
        (detailDocument (generateRender_resume (Response response_500_quota) (js ''0.3'') detail_busy))
        ''renderError'' (render_error_prefix @ js ''quota exceeded'')
   \<and> posts (generateRender_resume (Response response_500_quota) (js ''0.3'') detail_busy)
       = posts detail_busy
   \<and> planning_idle_with_error
        (generatePlanningRender_resume (Response response_500_quota) planning_busy)
        (planning_error_prefix @ js ''quota exceeded'')
   \<and> displays
        (planningDocument (generatePlanningRender_resume (Response response_500_quota) planning_busy))
        ''planningError'' (planning_error_prefix @ js ''quota exceeded'')
   \<and> detail_idle_with_error
        (generateRender
           (detail_ready\<lparr>formControls :=
              blank_form\<lparr>overall_description := js ''Riverside'',
                          project_type := \<lparr>selectValue = js ''resort'', selectedText = None\<rparr>\<rparr>\<rparr>))
        (render_error_prefix @ message typeError_text)
   \<and> isl (detailResponseData (Response response_500_plain))
   \<and> detailResponseData
        (Response \<lparr>status = 502, statusText = js ''Bad Gateway'',
                   body = NotJson (JsError (js ''Unexpected token''))\<rparr>)
       = Inl (JsError (js ''Unexpected token''))"
proof -
  define s' where "s' = detail_ready\<lparr>formControls :=
              blank_form\<lparr>overall_description := js ''Riverside'',
                          project_type := \<lparr>selectValue = js ''resort'', selectedText = None\<rparr>\<rparr>\<rparr>"
  have h: "\<not> falsy (currentSketchImage s')" "\<not> isRendering s'"
    "truthy (trim (overall_description (formControls s')))"
    "collectFormData (formControls s') = Inl typeError_text"
    by (simp_all add: s'_def detail_ready_eval detail_initial_def falsy_def truthy_def js_nonempty
        collectFormData_def buildDescriptionFromFields_def selectedOptionText_def blank_form_def
        trim_def js_def isWhiteSpace_def)
  have n: "\<not> ok response_500_plain"
    by (simp add: ok_def response_500_plain_def)
  have x: "detailDocument
             (generateRender_resume (Response response_500_quota) (js ''0.3'') detail_busy)
             ''renderError'' \<noteq> None"
    "planningDocument (generatePlanningRender_resume (Response response_500_quota) planning_busy)
       ''planningError'' \<noteq> None"
    by (simp_all add: generateRender_resume_def generatePlanningRender_resume_def
        response_500_quota_data generateRender_finally_def generateRender_catch_def
        generatePlanningRender_finally_def generatePlanningRender_catch_def
        detail_busy_eval detail_ready_eval detail_initial_def
        planning_busy_eval planning_ready_eval planning_initial_def
        showError_def showSpinner_def)
  show ?thesis
    using render_errors_terminal
      [where res = "Response response_500_quota" and e = "JsError (js ''quota exceeded'')"
         and elapsedTime = "js ''0.3''" and s = detail_busy and q = planning_busy
         and s' = s' and thrown = typeError_text
         and failure = "JsError (js ''Failed to fetch'')" and r = response_500_plain
         and r' = "\<lparr>status = 502, statusText = js ''Bad Gateway'',
                   body = NotJson (JsError (js ''Unexpected token''))\<rparr>"
         and syntaxError = "JsError (js ''Unexpected token'')"]
      x
    by (simp add: response_500_quota_data h n s'_def[symmetric]
        detail_idle_with_error_def planning_idle_with_error_def)
qed

section \<open>The message shown for a failed response\<close>

lemma helper_exists [simp]:
  "hideError elementId doc k = None \<longleftrightarrow> doc k = None"
  "showSuccess elementId msg doc k = None \<longleftrightarrow> doc k = None"
  "hideSuccess elementId doc k = None \<longleftrightarrow> doc k = None"
  "showSpinner elementId b doc k = None \<longleftrightarrow> doc k = None"
  by (simp_all add: hideError_def showSuccess_def hideSuccess_def showSpinner_def
      split: option.splits)

lemma resume_keeps_elements:
  "detailDocument (generateRender_resume res t s) k = None \<longleftrightarrow> detailDocument s k = None"
  "planningDocument (generatePlanningRender_resume res q) k = None \<longleftrightarrow> planningDocument q k = None"
  by (simp_all add: generateRender_resume_def generateRender_finally_def generateRender_catch_def
      displayRenderedImage_def generatePlanningRender_resume_def
      generatePlanningRender_finally_def generatePlanningRender_catch_def
      displayPlanningRender_def Let_def split: sum.splits option.splits)

lemma resume_displays_error:
  "detailResponseData res = Inl e \<Longrightarrow> detailDocument s ''renderError'' \<noteq> None \<Longrightarrow>
   displays (detailDocument (generateRender_resume res t s)) ''renderError''
     (render_error_prefix @ message e)"
  "planningResponseData res = Inl e \<Longrightarrow> planningDocument q ''planningError'' \<noteq> None \<Longrightarrow>
   displays (planningDocument (generatePlanningRender_resume res q)) ''planningError''
     (planning_error_prefix @ message e)"
  by (auto simp: generateRender_resume_error generatePlanningRender_resume_error
      generateRender_finally_def generateRender_catch_def generatePlanningRender_finally_def
      generatePlanningRender_catch_def displays_def showError_def showSpinner_def
      split: option.splits)

lemma busy_elements:
  "detailDocument detail_busy ''renderError'' \<noteq> None"
  "planningDocument planning_busy ''planningError'' \<noteq> None"
  by (simp_all add: detail_busy_eval planning_busy_eval planning_ready_eval planning_initial_def)

lemma sample_responses:
  "\<not> ok response_500_plain" "\<not> ok response_500_quota" "ok response_200_image"
  "status response_500_plain = 500"
  "statusText response_500_plain = js ''Internal Server Error''"
  "body response_500_plain
   = Json \<lparr>error_entry = None, generated_image_base64 = None, mime_type = None\<rparr>"
  "body response_500_quota
   = Json \<lparr>error_entry = Some (js ''quota exceeded''), generated_image_base64 = None,
           mime_type = None\<rparr>"
  "body response_200_image
   = Json \<lparr>error_entry = None, generated_image_base64 = Some (js ''iVBORw0KGgo=''),
           mime_type = Some (js ''image/png'')\<rparr>"
  by (simp_all add: ok_def response_500_plain_def response_500_quota_def response_200_image_def
      js_def)

lemma displays_unique: "displays doc k a \<Longrightarrow> a \<noteq> b \<Longrightarrow> \<not> displays doc k b"
  by (auto simp: displays_def split: option.splits)

lemma sample_error_data:
  "detailResponseData (Response response_500_plain) = Inl (JsError (js ''Server error: 500''))"
  "planningResponseData (Response response_500_plain)
   = Inl (JsError (js ''Planning render failed''))"
  by (simp_all add: detailResponseData_def planningResponseData_def sample_responses
      server_error_prefix_def msg_planning_failed_def decimal_examples)
    (simp add: js_def)

text \<open>
  Claim C5, as stated, fails. For a response with status 500, status text \<open>Internal Server
  Error\<close> and no \<open>error\<close> entry, the detail page shows its prefix followed by
  \<open>Server error: 500\<close> and the planning page its prefix followed by \<open>Planning render
  failed\<close>: neither shows the status text. With an \<open>error\<close> entry the text shown is
  the prefix followed by the entry, not the entry alone.
\<close>

theorem error_message_not_verbatim:
  "\<not> ok response_500_plain
   \<and> displays
        (detailDocument (generateRender_resume (Response response_500_plain) (js ''0.3'') detail_busy))
        ''renderError'' (render_error_prefix @ js ''Server error: 500'')
   \<and> \<not> displays
        (detailDocument (generateRender_resume (Response response_500_plain) (js ''0.3'') detail_busy))
        ''renderError'' (statusText response_500_plain)
   \<and> displays
        (planningDocument (generatePlanningRender_resume (Response response_500_plain) planning_busy))
        ''planningError'' (planning_error_prefix @ js ''Planning render failed'')
   \<and> \<not> displays
        (planningDocument (generatePlanningRender_resume (Response response_500_plain) planning_busy))
        ''planningError'' (statusText response_500_plain)
   \<and> displays
        (detailDocument (generateRender_resume (Response response_500_quota) (js ''0.3'') detail_busy))
        ''renderError'' (render_error_prefix @ js ''quota exceeded'')
   \<and> \<not> displays
        (detailDocument (generateRender_resume (Response response_500_quota) (js ''0.3'') detail_busy))
        ''renderError'' (js ''quota exceeded'')"
proof -
  have a: "displays
        (detailDocument (generateRender_resume (Response response_500_plain) (js ''0.3'') detail_busy))
        ''renderError'' (render_error_prefix @ js ''Server error: 500'')"
    using resume_displays_error(1)[OF sample_error_data(1) busy_elements(1)] by simp
  have b: "displays
        (planningDocument (generatePlanningRender_resume (Response response_500_plain) planning_busy))
        ''planningError'' (planning_error_prefix @ js ''Planning render failed'')"
    using resume_displays_error(2)[OF sample_error_data(2) busy_elements(2)] by simp
  have c: "displays
        (detailDocument (generateRender_resume (Response response_500_quota) (js ''0.3'') detail_busy))
        ''renderError'' (render_error_prefix @ js ''quota exceeded'')"
    using resume_displays_error(1)[OF response_500_quota_data(1) busy_elements(1)] by simp
  have ne: "render_error_prefix @ js ''Server error: 500'' \<noteq> statusText response_500_plain"
    "planning_error_prefix @ js ''Planning render failed'' \<noteq> statusText response_500_plain"
    "render_error_prefix @ js ''quota exceeded'' \<noteq> js ''quota exceeded''"
    by (simp_all add: render_error_prefix_def planning_error_prefix_def sample_responses js_def)
  show ?thesis
    using a b c displays_unique[OF a ne(1)] displays_unique[OF b ne(2)]
      displays_unique[OF c ne(3)] sample_responses(1)
    by simp
qed

text \<open>
  Claim C5, amended. For a response that is not ok and whose body parses to an object, the
  error element shows the page's prefix followed by the body's \<open>error\<close> entry when
  that is present and not empty, and otherwise followed by \<open>Server error: \<close> and the
  status code on the detail page, by \<open>Planning render failed\<close> on the planning page.
\<close>

theorem error_message_of_failed_response:
  assumes "\<not> ok r" and "body r = Json j"
    and "detailDocument s ''renderError'' \<noteq> None"
    and "planningDocument q ''planningError'' \<noteq> None"
  shows "(error_entry j = Some m \<and> m \<noteq> [] \<longrightarrow>
            displays (detailDocument (generateRender_resume (Response r) elapsedTime s))
              ''renderError'' (render_error_prefix @ m)
            \<and> displays (planningDocument (generatePlanningRender_resume (Response r) q))
                ''planningError'' (planning_error_prefix @ m))
         \<and> (error_entry j = None \<or> error_entry j = Some [] \<longrightarrow>
            displays (detailDocument (generateRender_resume (Response r) elapsedTime s))
              ''renderError'' (render_error_prefix @ js ''Server error: '' @ decimal (status r))
            \<and> displays (planningDocument (generatePlanningRender_resume (Response r) q))
                ''planningError'' (planning_error_prefix @ js ''Planning render failed''))"
proof (intro conjI impI)
  assume m: "error_entry j = Some m \<and> m \<noteq> []"
  with assms(1,2) have d: "detailResponseData (Response r) = Inl (JsError m)"
    and p: "planningResponseData (Response r) = Inl (JsError m)"
    by (simp_all add: detailResponseData_def planningResponseData_def truthy_def)
  show "displays (detailDocument (generateRender_resume (Response r) elapsedTime s))
              ''renderError'' (render_error_prefix @ m)"
    using resume_displays_error(1)[OF d assms(3)] by simp
  show "displays (planningDocument (generatePlanningRender_resume (Response r) q))
                ''planningError'' (planning_error_prefix @ m)"
    using resume_displays_error(2)[OF p assms(4)] by simp
next
  assume "error_entry j = None \<or> error_entry j = Some []"
  with assms(1,2) have
    d: "detailResponseData (Response r)
        = Inl (JsError (js ''Server error: '' @ decimal (status r)))"
    and p: "planningResponseData (Response r) = Inl (JsError (js ''Planning render failed''))"
    by (auto simp: detailResponseData_def planningResponseData_def truthy_def
        server_error_prefix_def msg_planning_failed_def)
  show "displays (detailDocument (generateRender_resume (Response r) elapsedTime s))
              ''renderError'' (render_error_prefix @ js ''Server error: '' @ decimal (status r))"
    using resume_displays_error(1)[OF d assms(3)] by simp
  show "displays (planningDocument (generatePlanningRender_resume (Response r) q))
                ''planningError'' (planning_error_prefix @ js ''Planning render failed'')"
    using resume_displays_error(2)[OF p assms(4)] by simp
qed

theorem error_message_of_failed_response_witness:
  "displays
     (detailDocument (generateRender_resume (Response response_500_quota) (js ''0.3'') detail_busy))
     ''renderError'' (render_error_prefix @ js ''quota exceeded'')
   \<and> displays
        (planningDocument (generatePlanningRender_resume (Response response_500_quota) planning_busy))
        ''planningError'' (planning_error_prefix @ js ''quota exceeded'')
   \<and> displays
        (detailDocument (generateRender_resume (Response response_500_plain) (js ''0.3'') detail_busy))
        ''renderError'' (render_error_prefix @ js ''Server error: 500'')
   \<and> displays
        (planningDocument (generatePlanningRender_resume (Response response_500_plain) planning_busy))
        ''planningError'' (planning_error_prefix @ js ''Planning render failed'')"
  using error_message_of_failed_response
      [OF sample_responses(2) sample_responses(7) busy_elements,
       where m = "js ''quota exceeded''" and elapsedTime = "js ''0.3''"]
    error_message_of_failed_response
      [OF sample_responses(1) sample_responses(6) busy_elements,
       where m = "[]" and elapsedTime = "js ''0.3''"]
  by (simp add: js_nonempty sample_responses(4) decimal_examples) (simp add: js_def)

section \<open>The rendered image\<close>

lemma success_data:
  "ok r \<Longrightarrow> body r = Json j \<Longrightarrow> detailResponseData (Response r) = Inr j"
  "ok r \<Longrightarrow> body r = Json j \<Longrightarrow> planningResponseData (Response r) = Inr j"
  by (simp_all add: detailResponseData_def planningResponseData_def)

text \<open>
  Claim C7. For an ok response whose body carries \<open>generated_image_base64\<close>, the
  detail page's gallery afterwards holds exactly one image whose \<open>src\<close> is the
  returned string; the planning page's gallery holds exactly one image whose \<open>src\<close>
  is the data URL made of the returned \<open>mime_type\<close> and the payload, whatever the
  gallery held before.
\<close>

theorem rendered_image_displayed:
  assumes "ok r" and "body r = Json j" and "generated_image_base64 j = Some b"
  shows "gallery (generateRender_resume (Response r) elapsedTime s)
         = [\<lparr>src = b, alt = js ''Rendered planning''\<rparr>]
       \<and> gallery (displayRenderedImage (Some b) s) = [\<lparr>src = b, alt = js ''Rendered planning''\<rparr>]
       \<and> (planningGallery q \<noteq> None \<and> mime_type j = Some m \<longrightarrow>
            planningGallery (generatePlanningRender_resume (Response r) q)
            = Some [\<lparr>src = js ''data:'' @ m @ js '';base64,'' @ b,
                      alt = js ''Planning render result''\<rparr>]
            \<and> planningGallery (displayPlanningRender (Some b) (Some m) q)
              = Some [\<lparr>src = js ''data:'' @ m @ js '';base64,'' @ b,
                        alt = js ''Planning render result''\<rparr>])"
  using assms
  by (auto simp: generateRender_resume_def generatePlanningRender_resume_def success_data
      generateRender_finally_def generatePlanningRender_finally_def displayRenderedImage_def
      displayPlanningRender_def interpolate_def Let_def)

theorem rendered_image_displayed_witness:
  "gallery (generateRender_resume (Response response_200_image) (js ''0.3'') detail_busy)
   = [\<lparr>src = js ''iVBORw0KGgo='', alt = js ''Rendered planning''\<rparr>]
   \<and> planningGallery
        (generatePlanningRender_resume (Response response_200_image)
           (planning_busy\<lparr>planningGallery :=
              Some [\<lparr>src = js ''data:image/png;base64,AAAA'', alt = js ''Planning render result''\<rparr>]\<rparr>))
     = Some [\<lparr>src = js ''data:image/png;base64,iVBORw0KGgo='',
               alt = js ''Planning render result''\<rparr>]"
  using rendered_image_displayed
      [OF sample_responses(3) sample_responses(8),
       where b = "js ''iVBORw0KGgo=''" and m = "js ''image/png''" and elapsedTime = "js ''0.3''"
         and s = detail_busy
         and q = "planning_busy\<lparr>planningGallery :=
              Some [\<lparr>src = js ''data:image/png;base64,AAAA'', alt = js ''Planning render result''\<rparr>]\<rparr>"]
  by (simp add: js_def)

section \<open>Validation before submitting\<close>

lemma generateRender_no_sketch:
  "falsy (currentSketchImage s) \<Longrightarrow>
   generateRender s
   = s\<lparr>detailDocument := showError ''renderError'' msg_upload_sketch (detailDocument s)\<rparr>"
  by (simp add: generateRender_def)

lemma generateRender_no_description:
  "\<not> falsy (currentSketchImage s) \<Longrightarrow> \<not> isRendering s \<Longrightarrow> noDescription (formControls s) \<Longrightarrow>
   generateRender s
   = s\<lparr>detailDocument := showError ''renderError'' msg_fill_form (detailDocument s)\<rparr>"
  by (simp add: generateRender_def noDescription_def truthy_def Let_def)

lemma generateRender_missing_no_post:
  "falsy (currentSketchImage s) \<or> noDescription (formControls s) \<Longrightarrow>
   posts (generateRender s) = posts s \<and> pending (generateRender s) = pending s"
  by (auto simp: generateRender_def noDescription_def truthy_def Let_def)

lemma generatePlanningRender_no_plans:
  "falsy (currentSitePlanImage q) \<or> falsy (currentLotMapImage q) \<Longrightarrow>
   generatePlanningRender q
   = q\<lparr>planningDocument := showError ''planningError'' msg_upload_plans (planningDocument q)\<rparr>"
  by (auto simp: generatePlanningRender_def)

lemma generatePlanningRender_no_lots:
  "\<not> falsy (currentSitePlanImage q) \<Longrightarrow> \<not> falsy (currentLotMapImage q) \<Longrightarrow>
   collectLotDescriptions (lotCardsContainer q) = [] \<Longrightarrow>
   generatePlanningRender q
   = q\<lparr>planningDocument := showError ''planningError'' msg_add_lot (planningDocument q)\<rparr>"
  by (simp add: generatePlanningRender_def)

lemma blank_form_noDescription: "noDescription blank_form"
  by (simp add: noDescription_def blank_form_def trim_js_examples)

lemma generateRender_submits:
  assumes "\<not> falsy (currentSketchImage s)" "\<not> isRendering s"
    and "\<not> noDescription (formControls s)"
    and "collectFormData (formControls s) = Inr formData"
  shows "generateRender s
         = s\<lparr>isRendering := True,
              detailDocument :=
                hideSuccess ''renderSuccess''
                  (hideError ''renderError''
                     (showSpinner ''renderSpinner'' True (detailDocument s))),
              generateButtonDisabled := True,
              posts := posts s @ [\<lparr>image_base64 = currentSketchImage s, planning_data = formData\<rparr>],
              pending := Suc (pending s)\<rparr>"
  using assms by (auto simp: generateRender_def noDescription_def truthy_def Let_def)

lemma response_200_image_resume:
  "generateRender_resume (Response response_200_image) (js ''0.3'') s
   = s\<lparr>currentRenderedImage := Some (js ''iVBORw0KGgo=''),
       gallery := [\<lparr>src = js ''iVBORw0KGgo='', alt = js ''Rendered planning''\<rparr>],
       outputControlsHidden := False,
       detailDocument := showSpinner ''renderSpinner'' False
          (showSuccess ''renderSuccess'' (msg_render_done (js ''0.3'')) (detailDocument s)),
       statTime := js ''0.3'' @ js ''s'',
       statsBoxHidden := False,
       isRendering := False,
       generateButtonDisabled := False\<rparr>"
  by (simp add: generateRender_resume_def
        success_data[OF sample_responses(3) sample_responses(8)]
        generateRender_finally_def displayRenderedImage_def interpolate_def Let_def)

lemma detail_cleared_while_busy_eval:
  "\<not> falsy (currentSketchImage detail_cleared_while_busy)"
  "isRendering detail_cleared_while_busy" "pending detail_cleared_while_busy = 1"
  "\<not> outputControlsHidden detail_cleared_while_busy"
  "formControls detail_cleared_while_busy = blank_form"
  "detailDocument detail_cleared_while_busy ''renderError''
   = Some \<lparr>textContent = [], hidden = True\<rparr>"
proof -
  define s0 where "s0 = detail_cleared_while_busy"
  define sb where
    "sb = generateRender_resume (Response response_200_image) (js ''0.3'')
            (detail_busy\<lparr>pending := 0\<rparr>)"
  have b: "\<not> falsy (currentSketchImage sb)" "\<not> isRendering sb" "pending sb = 0"
    "\<not> outputControlsHidden sb"
    "formControls sb = blank_form\<lparr>custom_description := js ''Riverside towers''\<rparr>"
    "detailDocument sb ''renderError'' = Some \<lparr>textContent = [], hidden = True\<rparr>"
    by (simp_all add: sb_def response_200_image_resume detail_busy_eval detail_ready_eval
        detail_initial_def falsy_def truthy_def js_nonempty showSpinner_def showSuccess_def)
  have t: "trim (js ''Riverside towers'') = js ''Riverside towers''"
    by (simp add: trim_def js_def isWhiteSpace_def)
  have c: "collectFormData (formControls sb)
           = Inr \<lparr>planning_description = js ''Riverside towers'',
                  structured_data = blank_form\<lparr>custom_description := js ''Riverside towers''\<rparr>\<rparr>"
    by (simp add: b(5) collectFormData_def t truthy_def js_nonempty Let_def)
  have n: "\<not> noDescription (formControls sb)"
    by (simp add: b(5) noDescription_def t js_nonempty)
  have g: "generateRender detail_ready = detail_busy"
    by (simp add: detail_busy_def)
  have p1: "pending detail_busy = 1"
    by (simp add: detail_busy_eval)
  have s0: "s0 = (generateRender sb)\<lparr>formControls := blank_form\<rparr>"
    by (simp add: s0_def detail_cleared_while_busy_def detail_run_def g p1 sb_def)
  have "\<not> falsy (currentSketchImage s0)" "isRendering s0" "pending s0 = 1"
    "\<not> outputControlsHidden s0" "formControls s0 = blank_form"
    "detailDocument s0 ''renderError'' = Some \<lparr>textContent = [], hidden = True\<rparr>"
    using b by (simp_all add: s0 generateRender_submits[OF b(1) b(2) n c]
        hideSuccess_def hideError_def showSpinner_def split: option.splits)
  then show "\<not> falsy (currentSketchImage detail_cleared_while_busy)"
    "isRendering detail_cleared_while_busy" "pending detail_cleared_while_busy = 1"
    "\<not> outputControlsHidden detail_cleared_while_busy"
    "formControls detail_cleared_while_busy = blank_form"
    "detailDocument detail_cleared_while_busy ''renderError''
     = Some \<lparr>textContent = [], hidden = True\<rparr>"
    unfolding s0_def by simp_all
qed

lemma planning_plans_only_eval:
  "planning_run planning_initial [SitePlanLoaded (js ''data:a''), LotMapLoaded (js ''data:b'')]
   = planning_initial\<lparr>currentSitePlanImage := Some (js ''data:a''),
                      currentLotMapImage := Some (js ''data:b'')\<rparr>"
  by (simp add: planning_run_def planning_initial_def sitePlanLoaded_def lotMapLoaded_def
      updateGenerateButton_def Let_def)

text \<open>
  Claim C3, as stated, fails on the detail page. After a first render the user clicks the
  regenerate button, clears the form while the request is pending, and clicks again: the
  sketch is present, no description is, and the handler returns at its in-flight guard,
  which stands before the description check. The page is unchanged and the error element
  stays hidden.
\<close>

theorem validation_silent_while_rendering:
  "\<not> falsy (currentSketchImage detail_cleared_while_busy)
   \<and> noDescription (formControls detail_cleared_while_busy)
   \<and> \<not> outputControlsHidden detail_cleared_while_busy
   \<and> detailDocument detail_cleared_while_busy ''renderError''
     = Some \<lparr>textContent = [], hidden = True\<rparr>
   \<and> generateRender detail_cleared_while_busy = detail_cleared_while_busy
   \<and> \<not> displays (detailDocument (generateRender detail_cleared_while_busy))
         ''renderError'' msg_fill_form"
proof -
  have g: "generateRender detail_cleared_while_busy = detail_cleared_while_busy"
    using detail_cleared_while_busy_eval(1,2) by (simp add: generateRender_def)
  have "\<not> displays (detailDocument detail_cleared_while_busy) ''renderError'' msg_fill_form"
    by (simp add: displays_def detail_cleared_while_busy_eval(6))
  with g show ?thesis
    by (simp add: detail_cleared_while_busy_eval blank_form_noDescription)
qed

text \<open>
  Claim C3, amended. With a required input missing no submit posts anything. The handler
  shows the validation message and changes nothing else when the sketch is missing, when
  a plan is missing, when no lot is described, and, on the detail page, when no description
  is given and no render is in flight. (With a render in flight and the sketch present the
  detail handler returns silently.)
\<close>

theorem missing_input_blocks_submit:
  "(falsy (currentSketchImage s1) \<longrightarrow>
      generateRender s1
      = s1\<lparr>detailDocument := showError ''renderError'' msg_upload_sketch (detailDocument s1)\<rparr>)
   \<and> (\<not> falsy (currentSketchImage s2) \<and> \<not> isRendering s2 \<and> noDescription (formControls s2) \<longrightarrow>
      generateRender s2
      = s2\<lparr>detailDocument := showError ''renderError'' msg_fill_form (detailDocument s2)\<rparr>)
   \<and> (falsy (currentSketchImage s3) \<or> noDescription (formControls s3) \<longrightarrow>
      posts (generateRender s3) = posts s3 \<and> pending (generateRender s3) = pending s3)
   \<and> (falsy (currentSitePlanImage q1) \<or> falsy (currentLotMapImage q1) \<longrightarrow>
      generatePlanningRender q1
      = q1\<lparr>planningDocument :=
             showError ''planningError'' msg_upload_plans (planningDocument q1)\<rparr>)
   \<and> (\<not> falsy (currentSitePlanImage q2) \<and> \<not> falsy (currentLotMapImage q2)
        \<and> collectLotDescriptions (lotCardsContainer q2) = [] \<longrightarrow>
      generatePlanningRender q2
      = q2\<lparr>planningDocument := showError ''planningError'' msg_add_lot (planningDocument q2)\<rparr>)
   \<and> (doc elementId \<noteq> None \<longrightarrow> displays (showError elementId msg doc) elementId msg)"
  using generateRender_no_sketch[of s1] generateRender_no_description[of s2]
    generateRender_missing_no_post[of s3] generatePlanningRender_no_plans[of q1]
    generatePlanningRender_no_lots[of q2] displays_showError[of doc elementId msg]
  by blast

theorem missing_input_blocks_submit_witness:
  "displays (detailDocument (generateRender detail_initial)) ''renderError'' msg_upload_sketch
   \<and> posts (generateRender detail_initial) = []
   \<and> displays (detailDocument (generateRender (detail_ready\<lparr>formControls := blank_form\<rparr>)))
        ''renderError'' msg_fill_form
   \<and> posts (generateRender (detail_ready\<lparr>formControls := blank_form\<rparr>)) = []
   \<and> posts (generateRender (detail_busy\<lparr>formControls := blank_form\<rparr>)) = posts detail_busy
   \<and> displays (planningDocument (generatePlanningRender planning_initial))
        ''planningError'' msg_upload_plans
   \<and> planningPosts (generatePlanningRender planning_initial) = []
   \<and> displays
        (planningDocument
           (generatePlanningRender
              (planning_run planning_initial
                 [SitePlanLoaded (js ''data:a''), LotMapLoaded (js ''data:b'')])))
        ''planningError'' msg_add_lot
   \<and> planningPosts
        (generatePlanningRender
           (planning_run planning_initial
              [SitePlanLoaded (js ''data:a''), LotMapLoaded (js ''data:b'')])) = []"
proof -
  define q2 where "q2 = planning_run planning_initial
              [SitePlanLoaded (js ''data:a''), LotMapLoaded (js ''data:b'')]"
  have q2e: "q2 = planning_initial\<lparr>currentSitePlanImage := Some (js ''data:a''),
                      currentLotMapImage := Some (js ''data:b'')\<rparr>"
    by (simp add: q2_def planning_plans_only_eval)
  have d: "falsy (currentSketchImage detail_initial)"
    "\<not> falsy (currentSketchImage (detail_ready\<lparr>formControls := blank_form\<rparr>))"
    "\<not> isRendering (detail_ready\<lparr>formControls := blank_form\<rparr>)"
    "\<not> falsy (currentSketchImage detail_ready)" "\<not> isRendering detail_ready"
    "posts detail_initial = []" "posts detail_ready = []"
    "detailDocument detail_initial ''renderError'' \<noteq> None"
    "detailDocument detail_ready ''renderError'' \<noteq> None"
    by (simp_all add: detail_ready_eval detail_initial_def falsy_def truthy_def js_nonempty)
  have p: "falsy (currentSitePlanImage planning_initial)"
    "\<not> falsy (currentSitePlanImage q2)" "\<not> falsy (currentLotMapImage q2)"
    "collectLotDescriptions (lotCardsContainer q2) = []"
    "planningPosts planning_initial = []" "planningPosts q2 = []"
    "planningDocument planning_initial ''planningError'' \<noteq> None"
    "planningDocument q2 ''planningError'' \<noteq> None"
    by (simp_all add: q2e planning_initial_def falsy_def truthy_def
        js_nonempty collectLotDescriptions_def)
  show ?thesis
    using missing_input_blocks_submit
      [where ?s1.0 = detail_initial and ?s2.0 = "detail_ready\<lparr>formControls := blank_form\<rparr>"
         and ?s3.0 = "detail_busy\<lparr>formControls := blank_form\<rparr>"
         and ?q1.0 = planning_initial and ?q2.0 = q2
         and doc = "detailDocument detail_initial" and elementId = "''renderError''"
         and msg = msg_upload_sketch]
      displays_showError[of "detailDocument detail_ready" "''renderError''" msg_fill_form]
      displays_showError[of "planningDocument planning_initial" "''planningError''" msg_upload_plans]
      displays_showError[of "planningDocument q2" "''planningError''" msg_add_lot]
    by (simp add: d p blank_form_noDescription q2_def[symmetric])
qed

section \<open>When the submit control is enabled\<close>

lemma updateGenerateButton_disabled:
  "generateBtnDisabled (updateGenerateButton s) \<longleftrightarrow> \<not> planning_inputs_present s"
  by (auto simp: updateGenerateButton_def planning_inputs_present_def Let_def list_ex_iff
      split: option.splits)

lemma updateGenerateButton_inputs [simp]:
  "planning_inputs_present (updateGenerateButton s) = planning_inputs_present s"
  by (simp add: updateGenerateButton_def planning_inputs_present_def Let_def)

lemma handlers_update_button:
  "generateBtnDisabled (sitePlanLoaded url s) \<longleftrightarrow> \<not> planning_inputs_present (sitePlanLoaded url s)"
  "generateBtnDisabled (lotMapLoaded url s) \<longleftrightarrow> \<not> planning_inputs_present (lotMapLoaded url s)"
  "lotCardsContainer s \<noteq> None \<Longrightarrow>
   generateBtnDisabled (addLotDescription s) \<longleftrightarrow> \<not> planning_inputs_present (addLotDescription s)"
  "lotCardsContainer s = Some cards \<Longrightarrow> i < length cards \<Longrightarrow>
   generateBtnDisabled (removeLot i s) \<longleftrightarrow> \<not> planning_inputs_present (removeLot i s)"
  "lotCardsContainer s = Some cards \<Longrightarrow> i < length cards \<Longrightarrow> descriptionInput (cards ! i) \<noteq> None \<Longrightarrow>
   generateBtnDisabled (inputDescription i v s) \<longleftrightarrow> \<not> planning_inputs_present (inputDescription i v s)"
  by (auto simp: sitePlanLoaded_def lotMapLoaded_def addLotDescription_def removeLot_def
      inputDescription_def updateGenerateButton_disabled)

lemma planning_other_images [simp]:
  "currentSitePlanImage (updateGenerateButton s) = currentSitePlanImage s"
  "currentLotMapImage (updateGenerateButton s) = currentLotMapImage s"
  "currentSitePlanImage (addLotDescription s) = currentSitePlanImage s"
  "currentLotMapImage (addLotDescription s) = currentLotMapImage s"
  "currentSitePlanImage (removeLot i s) = currentSitePlanImage s"
  "currentLotMapImage (removeLot i s) = currentLotMapImage s"
  "currentSitePlanImage (inputDescription i v s) = currentSitePlanImage s"
  "currentLotMapImage (inputDescription i v s) = currentLotMapImage s"
  "currentSitePlanImage (inputNumber i v s) = currentSitePlanImage s"
  "currentLotMapImage (inputNumber i v s) = currentLotMapImage s"
  "currentSitePlanImage (generatePlanningRender s) = currentSitePlanImage s"
  "currentLotMapImage (generatePlanningRender s) = currentLotMapImage s"
  "currentSitePlanImage (generatePlanningRender_resume res s) = currentSitePlanImage s"
  "currentLotMapImage (generatePlanningRender_resume res s) = currentLotMapImage s"
  by (simp_all add: updateGenerateButton_def addLotDescription_def updateLotNumbers_def
      removeLot_def inputDescription_def inputNumber_def generatePlanningRender_def
      generatePlanningRender_resume_def generatePlanningRender_finally_def
      generatePlanningRender_catch_def displayPlanningRender_def Let_def
      split: option.splits sum.splits)

lemma updateGenerateButton_enabled_plans:
  "\<not> generateBtnDisabled (updateGenerateButton s) \<Longrightarrow>
   currentSitePlanImage s \<noteq> None \<and> currentLotMapImage s \<noteq> None"
  by (simp add: updateGenerateButton_disabled planning_inputs_present_def)

lemma generatePlanningRender_button:
  "(generateBtnDisabled (generatePlanningRender s) = generateBtnDisabled s
    \<and> planningPending (generatePlanningRender s) = planningPending s)
   \<or> (currentSitePlanImage s \<noteq> None \<and> currentLotMapImage s \<noteq> None)"
  by (auto simp: generatePlanningRender_def falsy_def Let_def split: option.splits)

lemma planning_step_plans_inv: "planning_plans_inv s \<Longrightarrow> planning_plans_inv (planning_step s e)"
proof (cases e)
  case (SitePlanLoaded url)
  assume "planning_plans_inv s"
  with SitePlanLoaded show ?thesis
    using updateGenerateButton_enabled_plans[of "s\<lparr>currentSitePlanImage := Some url\<rparr>"]
    by (auto simp: planning_plans_inv_def sitePlanLoaded_def)
next
  case (LotMapLoaded url)
  assume "planning_plans_inv s"
  with LotMapLoaded show ?thesis
    using updateGenerateButton_enabled_plans[of "s\<lparr>currentLotMapImage := Some url\<rparr>"]
    by (auto simp: planning_plans_inv_def lotMapLoaded_def)
next
  case ClickAddLot
  assume "planning_plans_inv s"
  with ClickAddLot show ?thesis
    by (auto simp: planning_plans_inv_def addLotDescription_def
        dest!: updateGenerateButton_enabled_plans split: option.splits)
next
  case (ClickRemoveLot i)
  assume "planning_plans_inv s"
  with ClickRemoveLot show ?thesis
    by (auto simp: planning_plans_inv_def removeLot_def updateLotNumbers_def
        dest!: updateGenerateButton_enabled_plans split: option.splits if_splits)
next
  case (InputDescription i v)
  assume "planning_plans_inv s"
  with InputDescription show ?thesis
    by (auto simp: planning_plans_inv_def inputDescription_def
        dest!: updateGenerateButton_enabled_plans split: option.splits if_splits)
next
  case (InputNumber i v)
  assume "planning_plans_inv s"
  with InputNumber show ?thesis
    by (auto simp: planning_plans_inv_def inputNumber_def split: option.splits if_splits)
next
  case ClickGeneratePlanning
  assume "planning_plans_inv s"
  with ClickGeneratePlanning generatePlanningRender_button[of s] show ?thesis
    by (auto simp: planning_plans_inv_def)
next
  case (PlanningFetchSettled res)
  assume "planning_plans_inv s"
  with PlanningFetchSettled show ?thesis
    by (auto simp: planning_plans_inv_def generatePlanningRender_resume_frame)
qed

lemma planning_run_plans_inv: "planning_plans_inv s \<Longrightarrow> planning_plans_inv (planning_run s events)"
proof (induction events rule: rev_induct)
  case Nil
  then show ?case by (simp add: planning_run_def)
next
  case (snoc e events)
  then show ?case by (simp add: planning_run_snoc planning_step_plans_inv)
qed

lemma generateRender_button:
  "(generateButtonDisabled (generateRender s) = generateButtonDisabled s
    \<and> pending (generateRender s) = pending s)
   \<or> currentSketchImage s \<noteq> None"
  by (auto simp: generateRender_def falsy_def Let_def split: option.splits)

lemma detail_other_sketch [simp]:
  "currentSketchImage (generateRender s) = currentSketchImage s"
  "currentSketchImage (generateRender_resume res t s) = currentSketchImage s"
  by (simp_all add: generateRender_def generateRender_resume_def generateRender_finally_def
      generateRender_catch_def displayRenderedImage_def Let_def split: sum.splits)

lemma detail_step_sketch_inv: "detail_sketch_inv s \<Longrightarrow> detail_sketch_inv (detail_step s e)"
proof (cases e)
  case ClickGenerate
  assume "detail_sketch_inv s"
  with ClickGenerate generateRender_button[of s] show ?thesis
    by (auto simp: detail_sketch_inv_def)
next
  case (FetchSettled res t)
  assume "detail_sketch_inv s"
  with FetchSettled show ?thesis
    by (auto simp: detail_sketch_inv_def generateRender_resume_frame)
qed (auto simp: detail_sketch_inv_def sketchLoaded_def)

lemma detail_run_sketch_inv: "detail_sketch_inv s \<Longrightarrow> detail_sketch_inv (detail_run s events)"
proof (induction events rule: rev_induct)
  case Nil
  then show ?case by (simp add: detail_run_def)
next
  case (snoc e events)
  then show ?case by (simp add: detail_run_snoc detail_step_sketch_inv)
qed


lemma planning_step_updates_button:
  "changes_inputs e \<Longrightarrow>
   planning_step s e = s
   \<or> (generateBtnDisabled (planning_step s e) \<longleftrightarrow> \<not> planning_inputs_present (planning_step s e))"
proof (cases e)
  case (SitePlanLoaded url)
  then show ?thesis by (simp add: handlers_update_button)
next
  case (LotMapLoaded url)
  then show ?thesis by (simp add: handlers_update_button)
next
  case ClickAddLot
  show ?thesis
  proof (cases "lotCardsContainer s")
    case None
    with ClickAddLot show ?thesis by (simp add: addLotDescription_def)
  next
    case (Some cards)
    with ClickAddLot show ?thesis by (simp add: handlers_update_button)
  qed
next
  case (ClickRemoveLot i)
  show ?thesis
  proof (cases "lotCardsContainer s")
    case None
    with ClickRemoveLot show ?thesis by (simp add: removeLot_def)
  next
    case (Some cards)
    show ?thesis
    proof (cases "i < length cards")
      case True
      with Some ClickRemoveLot handlers_update_button(4)[of s cards i] show ?thesis by simp
    next
      case False
      with Some ClickRemoveLot show ?thesis by (simp add: removeLot_def)
    qed
  qed
next
  case (InputDescription i v)
  show ?thesis
  proof (cases "lotCardsContainer s")
    case None
    with InputDescription show ?thesis by (simp add: inputDescription_def)
  next
    case (Some cards)
    show ?thesis
    proof (cases "i < length cards \<and> descriptionInput (cards ! i) \<noteq> None")
      case True
      with Some InputDescription handlers_update_button(5)[of s cards i v] show ?thesis by simp
    next
      case False
      with Some InputDescription show ?thesis by (auto simp: inputDescription_def)
    qed
  qed
qed simp_all

lemma planning_removed_eval:
  "lotCardsContainer planning_removed_while_busy = Some []"
  "generateBtnDisabled planning_removed_while_busy"
  "planningPending planning_removed_while_busy = 1"
  "lotCardsContainer planning_removed_then_settled = Some []"
  "\<not> generateBtnDisabled planning_removed_then_settled"
proof -
  have b: "generatePlanningRender planning_ready = planning_busy"
    by (simp add: planning_busy_def)
  have c: "lotCardsContainer planning_busy
           = Some [\<lparr>numberInput = Some (js ''1''), descriptionInput = Some (js ''Villa'')\<rparr>]"
    "planningPending planning_busy = 1"
    by (simp_all add: planning_busy_eval planning_ready_eval)
  have r: "planning_removed_while_busy = removeLot 0 planning_busy"
    by (simp add: planning_removed_while_busy_def planning_run_def b)
  show 1: "lotCardsContainer planning_removed_while_busy = Some []"
    by (simp add: r removeLot_def c updateLotNumbers_def updateGenerateButton_def Let_def)
  show 2: "generateBtnDisabled planning_removed_while_busy"
    by (simp add: r removeLot_def c updateLotNumbers_def updateGenerateButton_def Let_def)
  show 3: "planningPending planning_removed_while_busy = 1"
    by (simp add: r c)
  have k: "lotCardsContainer (generatePlanningRender_resume res s) = lotCardsContainer s" for res s
    by (simp add: generatePlanningRender_resume_def generatePlanningRender_finally_def
        generatePlanningRender_catch_def displayPlanningRender_def Let_def
        split: sum.splits option.splits)
  have e: "\<not> generateBtnDisabled (generatePlanningRender_resume res s)" for res s
    by (simp add: generatePlanningRender_resume_def generatePlanningRender_finally_def)
  show "lotCardsContainer planning_removed_then_settled = Some []"
    by (simp add: planning_removed_then_settled_def 3 k 1)
  show "\<not> generateBtnDisabled planning_removed_then_settled"
    by (simp add: planning_removed_then_settled_def 3 e)
qed

text \<open>
  Claim C6, as stated, fails on the planning page. With both plans and one described lot
  the user starts a render and, while it is pending, removes the lot card:
  \<open>updateGenerateButton\<close> disables the button. When the response arrives, the
  \<open>finally\<close> block enables the button again, although no lot card exists.
\<close>

theorem button_enabled_without_lot_cards:
  "generateBtnDisabled planning_removed_while_busy
   \<and> lotCardsContainer planning_removed_then_settled = Some []
   \<and> \<not> planning_inputs_present planning_removed_then_settled
   \<and> \<not> generateBtnDisabled planning_removed_then_settled"
  by (simp add: planning_removed_eval planning_inputs_present_def)

text \<open>
  Claim C6, amended. On the detail page the upload of a sketch enables the submit control,
  and from a page whose control is disabled the control is never enabled without a sketch.
  On the planning page the control is never enabled without a site plan and a lot map;
  \<open>updateGenerateButton\<close>, which ends every upload, card addition, card removal and
  description edit, enables it exactly when, in addition, a lot card and a non-blank
  description exist; and the end of a render request enables it whatever the lot cards are
  then.
\<close>

theorem submit_control_enabling:
  "(generateButtonDisabled d \<and> pending d = 0 \<longrightarrow> detail_sketch_inv (detail_run d events))
   \<and> \<not> generateButtonDisabled (sketchLoaded dataUrl d')
   \<and> currentSketchImage (sketchLoaded dataUrl d') = Some dataUrl
   \<and> (generateBtnDisabled p \<and> planningPending p = 0 \<longrightarrow>
        planning_plans_inv (planning_run p pevents))
   \<and> (generateBtnDisabled (updateGenerateButton p') \<longleftrightarrow> \<not> planning_inputs_present p')
   \<and> (changes_inputs e \<longrightarrow>
        planning_step s e = s
        \<or> (generateBtnDisabled (planning_step s e)
            \<longleftrightarrow> \<not> planning_inputs_present (planning_step s e)))
   \<and> \<not> generateBtnDisabled (generatePlanningRender_resume res q)"
proof (intro conjI impI)
  assume "generateButtonDisabled d \<and> pending d = 0"
  then have "detail_sketch_inv d" by (simp add: detail_sketch_inv_def)
  then show "detail_sketch_inv (detail_run d events)" by (rule detail_run_sketch_inv)
next
  assume "generateBtnDisabled p \<and> planningPending p = 0"
  then have "planning_plans_inv p" by (simp add: planning_plans_inv_def)
  then show "planning_plans_inv (planning_run p pevents)" by (rule planning_run_plans_inv)
next
  assume "changes_inputs e"
  then show "planning_step s e = s
        \<or> (generateBtnDisabled (planning_step s e)
            \<longleftrightarrow> \<not> planning_inputs_present (planning_step s e))"
    by (rule planning_step_updates_button)
next
  show "generateBtnDisabled (updateGenerateButton p') \<longleftrightarrow> \<not> planning_inputs_present p'"
    by (rule updateGenerateButton_disabled)
next
  show "\<not> generateBtnDisabled (generatePlanningRender_resume res q)"
    by (simp add: generatePlanningRender_resume_def generatePlanningRender_finally_def)
qed (simp_all add: sketchLoaded_def)

theorem submit_control_enabling_witness:
  "generateButtonDisabled detail_initial
   \<and> detail_sketch_inv (detail_run detail_initial [SketchLoaded (js ''data:sketch'')])
   \<and> \<not> generateButtonDisabled (detail_run detail_initial [SketchLoaded (js ''data:sketch'')])
   \<and> generateBtnDisabled planning_initial
   \<and> planning_plans_inv planning_ready
   \<and> \<not> generateBtnDisabled planning_ready
   \<and> planning_inputs_present planning_ready
   \<and> generateBtnDisabled (planning_step planning_ready (ClickRemoveLot 0))
   \<and> \<not> planning_inputs_present (planning_step planning_ready (ClickRemoveLot 0))"
proof -
  have i: "generateButtonDisabled detail_initial" "pending detail_initial = 0"
    "generateBtnDisabled planning_initial" "planningPending planning_initial = 0"
    by (simp_all add: detail_initial_def planning_initial_def)
  have u: "updateGenerateButton planning_ready = planning_ready"
    "\<not> generateBtnDisabled planning_ready"
    by (simp_all add: planning_ready_eval planning_initial_def updateGenerateButton_def Let_def
        trim_js_examples js_nonempty)
  have r: "lotCardsContainer (removeLot 0 planning_ready) = Some []"
    "removeLot 0 planning_ready \<noteq> planning_ready"
    "generateBtnDisabled (removeLot 0 planning_ready)"
    by (auto simp: planning_ready_eval planning_initial_def removeLot_def updateLotNumbers_def
        updateGenerateButton_def Let_def dest: arg_cong[where f = lotCardsContainer])
  show ?thesis
    using submit_control_enabling
      [where d = detail_initial and events = "[SketchLoaded (js ''data:sketch'')]"
         and dataUrl = "js ''data:sketch''" and d' = detail_initial
         and p = planning_initial
         and pevents = "[SitePlanLoaded (js ''data:a''), LotMapLoaded (js ''data:b''),
                         ClickAddLot, InputDescription 0 (js ''Villa'')]"
         and p' = planning_ready and e = "ClickRemoveLot 0" and s = planning_ready
         and res = "Response response_200_image" and q = planning_busy]
    by (simp add: i u r planning_ready_def[symmetric] detail_run_def)
qed

section \<open>Failures of an upload\<close>







lemma planning_displays_frame [simp]:
  "planningDocument (updateGenerateButton s) = planningDocument s"
  "planningDocument (sitePlanLoaded url s) = planningDocument s"
  "planningDocument (lotMapLoaded url s) = planningDocument s"
  by (simp_all add: updateGenerateButton_def sitePlanLoaded_def lotMapLoaded_def Let_def)




end
